theory Spec2Isabelle
  imports Complex_Main
begin

section \<open>Shared string helpers\<close>

text \<open>
  A JavaScript string is modelled as a \<^typ>\<open>string\<close>: the list of its UTF-16 code units,
  of which a \<^typ>\<open>char\<close> holds those below 256 (U+0000 to U+00FF). On these,
  \<open>String.prototype.trim\<close> removes the leading and trailing TAB, LF, VT, FF, CR, SPACE
  and NO-BREAK SPACE (U+00A0), and \<open>toLowerCase\<close> maps A to Z and the capital letters
  U+00C0 to U+00DE, without the multiplication sign U+00D7, to the letter 32 places up.
  The server takes both functions from its library parameters; the functions here are
  what the voice loop and the evaluated examples use.
\<close>

definition isWhitespace :: "char \<Rightarrow> bool" where
  "isWhitespace c =
     (c \<in> set [CHR '' '', CHR 0x09, CHR 0x0A, CHR 0x0B, CHR 0x0C, CHR 0x0D, CHR 0xA0])"

definition trim :: "string \<Rightarrow> string" where
  "trim s = rev (dropWhile isWhitespace (rev (dropWhile isWhitespace s)))"

definition upperLetters :: string where
  "upperLetters =
     ''ABCDEFGHIJKLMNOPQRSTUVWXYZ'' @
     [CHR 0xC0, CHR 0xC1, CHR 0xC2, CHR 0xC3, CHR 0xC4, CHR 0xC5, CHR 0xC6, CHR 0xC7,
      CHR 0xC8, CHR 0xC9, CHR 0xCA, CHR 0xCB, CHR 0xCC, CHR 0xCD, CHR 0xCE, CHR 0xCF,
      CHR 0xD0, CHR 0xD1, CHR 0xD2, CHR 0xD3, CHR 0xD4, CHR 0xD5, CHR 0xD6,
      CHR 0xD8, CHR 0xD9, CHR 0xDA, CHR 0xDB, CHR 0xDC, CHR 0xDD, CHR 0xDE]"

definition lowerLetters :: string where
  "lowerLetters =
     ''abcdefghijklmnopqrstuvwxyz'' @
     [CHR 0xE0, CHR 0xE1, CHR 0xE2, CHR 0xE3, CHR 0xE4, CHR 0xE5, CHR 0xE6, CHR 0xE7,
      CHR 0xE8, CHR 0xE9, CHR 0xEA, CHR 0xEB, CHR 0xEC, CHR 0xED, CHR 0xEE, CHR 0xEF,
      CHR 0xF0, CHR 0xF1, CHR 0xF2, CHR 0xF3, CHR 0xF4, CHR 0xF5, CHR 0xF6,
      CHR 0xF8, CHR 0xF9, CHR 0xFA, CHR 0xFB, CHR 0xFC, CHR 0xFD, CHR 0xFE]"

definition lowerChar :: "char \<Rightarrow> char" where
  "lowerChar c =
     (case map_of (zip upperLetters lowerLetters) c of
        Some x \<Rightarrow> x
      | None \<Rightarrow> c)"

definition toLowerCase :: "string \<Rightarrow> string" where
  "toLowerCase s = map lowerChar s"

definition startsWith :: "string \<Rightarrow> string \<Rightarrow> bool" where
  "startsWith s p = (take (length p) s = p)"

section \<open>Server: tables, library parameters and HTTP responses\<close>

text \<open>
  The rows of the Postgres tables the modelled routes read and write
  (migrations/001_init.sql and the interview migration). A table is the list of its rows.
  Timestamps are integers. A statement that PostgreSQL cannot parse is a branch of the
  model; a lost connection or a malformed UUID parameter is not.
\<close>

record user_row =
  u_id :: string
  u_email :: string
  password_hash :: string

record analysis =
  overallScore :: int
  atsScore :: int

record resume_row =
  r_id :: string
  r_user_id :: string
  file_name :: string
  file_path :: string
  file_size :: nat
  analysis_results :: analysis
  r_created_at :: int

record metadata =
  questionsAsked :: "int option"
  currentQuestionNumber :: "int option"

text \<open>
  The columns the list endpoint selects; \<open>session_row\<close> adds the \<open>metadata\<close> column
  that \<open>SELECT is.*\<close> also returns.
\<close>

record session_public =
  s_id :: string
  s_user_id :: string
  job_id :: "string option"
  interview_type :: string
  duration :: "int option"
  score :: "int option"
  s_status :: string
  s_created_at :: int

record session_row = session_public +
  s_metadata :: metadata

record question_row =
  q_id :: string
  interview_session_id :: string
  question_number :: nat
  question_text :: string

record answer_row =
  a_id :: string
  a_session_id :: string
  question_id :: string
  answer_text :: string
  transcription_confidence :: "real option"
  audio_duration :: "int option"
  audio_file_path :: "string option"

record db =
  users :: "user_row list"
  resumes :: "resume_row list"
  interview_sessions :: "session_row list"

text \<open>
  What the server takes from its runtime and its libraries is a parameter:
  \<open>String.prototype.trim\<close> (zod's \<open>.trim()\<close>) and \<open>toLowerCase\<close>, zod's e-mail and
  UUID checks, bcryptjs, jsonwebtoken with the server secret,
  \<open>NODE_ENV === "production"\<close>, and whether the installed multer refuses a file of
  exactly \<open>limits.fileSize\<close> bytes (its parser does from busboy 1.0 on, and did not
  before). \<open>jwt_verify\<close> is \<open>None\<close> when \<open>jwt.verify\<close> throws.
\<close>

record req_user =
  user_id :: string
  user_email :: string

record lib =
  js_trim :: "string \<Rightarrow> string"
  js_toLowerCase :: "string \<Rightarrow> string"
  isEmail :: "string \<Rightarrow> bool"
  isUuid :: "string \<Rightarrow> bool"
  bcrypt_hash :: "string \<Rightarrow> string"
  bcrypt_compare :: "string \<Rightarrow> string \<Rightarrow> bool"
  jwt_sign :: "req_user \<Rightarrow> string"
  jwt_verify :: "string \<Rightarrow> req_user option"
  production :: bool
  refusesAtLimit :: bool

text \<open>
  services/ai-interview-service.ts and services/resume-analysis-service.ts are called by
  the routes; their results are parameters. \<open>createInterviewAnswer\<close> is \<open>None\<close> when it
  throws, \<open>analyzeResume\<close> is \<open>Inl\<close> the error's message when it throws.
\<close>

record services =
  getSessionQuestions :: "string \<Rightarrow> question_row list"
  getSessionAnswers :: "string \<Rightarrow> answer_row list"
  createInterviewAnswer ::
    "string \<Rightarrow> string \<Rightarrow> string \<Rightarrow> real option \<Rightarrow> int option \<Rightarrow> string option
       \<Rightarrow> answer_row option"
  analyzeResume :: "string \<Rightarrow> string + analysis"

text \<open>
  The cookie set by \<open>setAuthCookie\<close> (routes/auth.ts).
\<close>

record auth_cookie =
  cookie_name :: string
  cookie_value :: string
  httpOnly :: bool
  secure :: bool
  sameSite :: string
  maxAge :: nat
  cookie_path :: string

record submit_result =
  answer :: answer_row
  nextQuestion :: "question_row option"
  isComplete :: bool
  progress_current :: nat
  progress_total :: nat

text \<open>The JSON bodies the modelled handlers send.\<close>

datatype json_body =
    ErrorBody string
  | ValidationErrorBody
  | AuthBody string req_user
  | SessionsBody "session_public list"
  | SessionBody session_row "string option" "string option"
  | QuestionsBody "question_row list"
  | AnswersBody "answer_row list"
  | ResumesBody "resume_row list"
  | ResumeBody resume_row
  | ResumeCreatedBody resume_row analysis
  | SubmitAnswerBody submit_result

record response =
  status :: nat
  body :: json_body
  set_cookie :: "auth_cookie option"

definition respond :: "nat \<Rightarrow> json_body \<Rightarrow> response" where
  "respond st b = \<lparr>status = st, body = b, set_cookie = None\<rparr>"

text \<open>
  The last middleware of index.ts: whatever a handler passes to \<open>next(error)\<close>, and
  whatever multer rejects, is answered with 500.
\<close>

definition internal_error :: response where
  "internal_error = respond 500 (ErrorBody ''Internal server error'')"

section \<open>Server: the authentication middleware\<close>

text \<open>
  What \<open>requireAuth\<close> reads of a request: the \<open>accessToken\<close> cookie (absent when
  \<open>req.cookies?.accessToken\<close> is undefined) and the Authorization header.
\<close>

record auth_request =
  accessToken :: "string option"
  authorization :: "string option"

text \<open>A JavaScript string is truthy exactly when it is present and not empty.\<close>

definition truthy :: "string option \<Rightarrow> bool" where
  "truthy t = (case t of None \<Rightarrow> False | Some s \<Rightarrow> s \<noteq> [])"

text \<open>
  The first half of \<open>requireAuth\<close>: the cookie first, the Bearer header as the fallback.
  \<open>header.slice(7)\<close> is \<open>drop 7\<close>. The result is \<open>None\<close> where the source answers
  401 "Authentication required".
\<close>

definition selectToken :: "auth_request \<Rightarrow> string option" where
  "selectToken req =
     (let token = accessToken req;
          token = (if \<not> truthy token
                   then (case authorization req of
                           None \<Rightarrow> token
                         | Some header \<Rightarrow>
                             if header \<noteq> [] \<and> startsWith header ''Bearer ''
                             then Some (drop 7 header) else token)
                   else token)
      in if \<not> truthy token then None else token)"

text \<open>
  \<open>Inl\<close> is the response that ends the request, \<open>Inr\<close> is \<open>req.user\<close> as handed to
  \<open>next()\<close>.
\<close>

definition requireAuth :: "lib \<Rightarrow> auth_request \<Rightarrow> response + req_user" where
  "requireAuth l req =
     (case selectToken req of
        None \<Rightarrow> Inl (respond 401 (ErrorBody ''Authentication required''))
      | Some token \<Rightarrow>
          (case jwt_verify l token of
             Some payload \<Rightarrow> Inr payload
           | None \<Rightarrow> Inl (respond 401 (ErrorBody ''Invalid or expired token''))))"

text \<open>
  A route behind \<open>requireAuth\<close>: the handler runs only with \<open>req.user\<close> set; a rejected
  request leaves the database as it was.
\<close>

definition behindAuth ::
  "lib \<Rightarrow> auth_request \<Rightarrow> (req_user \<Rightarrow> db \<Rightarrow> response \<times> db) \<Rightarrow> db \<Rightarrow> response \<times> db" where
  "behindAuth l req handler d =
     (case requireAuth l req of
        Inl r \<Rightarrow> (r, d)
      | Inr u \<Rightarrow> handler u d)"

section \<open>Server: registration and login (routes/auth.ts)\<close>

text \<open>
  \<open>req.body\<close> as \<open>credentialsSchema\<close> sees it: a field is \<open>None\<close> when it is missing or
  not a string.
\<close>

record credentials_body =
  email_field :: "string option"
  password_field :: "string option"

text \<open>
  \<open>credentialsSchema.parse\<close>: the e-mail is trimmed and then checked, the password has
  6 to 128 characters. \<open>None\<close> is the thrown \<open>ZodError\<close>.
\<close>

definition credentialsSchema_parse :: "lib \<Rightarrow> credentials_body \<Rightarrow> (string \<times> string) option" where
  "credentialsSchema_parse l b =
     (case (email_field b, password_field b) of
        (Some e, Some p) \<Rightarrow>
          if isEmail l (js_trim l e) \<and> 6 \<le> length p \<and> length p \<le> 128
          then Some (js_trim l e, p) else None
      | _ \<Rightarrow> None)"

definition buildToken :: "lib \<Rightarrow> req_user \<Rightarrow> string" where
  "buildToken l u = jwt_sign l u"

definition setAuthCookie :: "lib \<Rightarrow> response \<Rightarrow> string \<Rightarrow> response" where
  "setAuthCookie l res token =
     res\<lparr>set_cookie := Some \<lparr>cookie_name = ''accessToken'', cookie_value = token,
                              httpOnly = True, secure = production l, sameSite = ''lax'',
                              maxAge = 7 * 24 * 60 * 60 * 1000, cookie_path = ''/''\<rparr>\<rparr>"

text \<open>
  POST /api/auth/register. \<open>userId\<close> is the value of \<open>randomUUID()\<close>.
\<close>

definition register :: "lib \<Rightarrow> string \<Rightarrow> credentials_body \<Rightarrow> db \<Rightarrow> response \<times> db" where
  "register l userId b d =
     (case credentialsSchema_parse l b of
        None \<Rightarrow> (respond 400 ValidationErrorBody, d)
      | Some (email, password) \<Rightarrow>
          (let existing = filter (\<lambda>u. u_email u = js_toLowerCase l email) (users d)
           in if existing \<noteq> []
              then (respond 409 (ErrorBody ''Email already registered''), d)
              else
                (let passwordHash = bcrypt_hash l password;
                     d' = d\<lparr>users := users d @
                             [\<lparr>u_id = userId, u_email = js_toLowerCase l email,
                               password_hash = passwordHash\<rparr>]\<rparr>;
                     u = \<lparr>user_id = userId, user_email = js_toLowerCase l email\<rparr>;
                     token = buildToken l u
                 in (setAuthCookie l (respond 201 (AuthBody token u)) token, d'))))"


section \<open>Server: uploads (multer)\<close>

text \<open>
  A file part of a multipart request, with the name \<open>diskStorage\<close> stores it under.
\<close>

record upload_file =
  originalname :: string
  mimetype :: string
  f_size :: nat
  filename :: string

text \<open>
  \<open>multer({limits: {fileSize}, fileFilter}).single(field)\<close>: without a file part the
  handler runs with \<open>req.file\<close> undefined; a part the filter refuses, or one with more
  than \<open>fileSize\<close> bytes, ends in \<open>next(error)\<close>. A part of exactly \<open>fileSize\<close>
  bytes is refused or not with the installed version (\<open>refusesAtLimit\<close>). The filter
  is \<open>Some\<close> the error it passes to its callback.
\<close>

datatype upload_result = Rejected string | Accepted "upload_file option"

definition multer_single ::
  "lib \<Rightarrow> nat \<Rightarrow> (upload_file \<Rightarrow> string option) \<Rightarrow> upload_file option \<Rightarrow> upload_result" where
  "multer_single l fileSize fileFilter part =
     (case part of
        None \<Rightarrow> Accepted None
      | Some f \<Rightarrow>
          (case fileFilter f of
             Some err \<Rightarrow> Rejected err
           | None \<Rightarrow>
               if fileSize < f_size f \<or> (refusesAtLimit l \<and> f_size f = fileSize)
               then Rejected ''File too large''
               else Accepted (Some f)))"

definition resume_fileSize :: nat where
  "resume_fileSize = 5 * 1024 * 1024"

definition resume_allowed :: "string list" where
  "resume_allowed = [''application/vnd.openxmlformats-officedocument.wordprocessingml.document'']"

definition resume_fileFilter :: "upload_file \<Rightarrow> string option" where
  "resume_fileFilter file =
     (if mimetype file \<in> set resume_allowed then None
      else Some ''Unsupported file type. Only DOCX files are supported.'')"

definition upload :: "lib \<Rightarrow> upload_file option \<Rightarrow> upload_result" where
  "upload l = multer_single l resume_fileSize resume_fileFilter"

definition audio_fileSize :: nat where
  "audio_fileSize = 25 * 1024 * 1024"

definition allowedAudioTypes :: "string list" where
  "allowedAudioTypes =
     [''audio/webm'', ''audio/webm;codecs=opus'', ''audio/mpeg'', ''audio/mp3'', ''audio/wav'',
      ''audio/x-wav'', ''audio/wave'', ''audio/ogg'', ''audio/mp4'']"

definition audio_fileFilter :: "upload_file \<Rightarrow> string option" where
  "audio_fileFilter file =
     (if mimetype file \<in> set allowedAudioTypes then None
      else Some ''Unsupported audio format'')"

definition audioUpload :: "lib \<Rightarrow> upload_file option \<Rightarrow> upload_result" where
  "audioUpload l = multer_single l audio_fileSize audio_fileFilter"

section \<open>Server: resumes (routes/resumes.ts)\<close>

definition uploadsPath :: string where
  "uploadsPath = ''server/uploads/resumes''"

text \<open>\<open>ORDER BY created_at DESC\<close>; rows of equal time keep their table order.\<close>

definition order_by_desc :: "('a \<Rightarrow> int) \<Rightarrow> 'a list \<Rightarrow> 'a list" where
  "order_by_desc key rows = sort_key (\<lambda>r. - key r) rows"

text \<open>
  The handler of POST /api/resumes. \<open>resumeId\<close> is \<open>randomUUID()\<close>, \<open>now\<close> the
  \<open>created_at\<close> default. The insert violates the foreign key (code 23503) when the
  token's user has no row.
\<close>

definition resumes_post_handler ::
  "services \<Rightarrow> string \<Rightarrow> int \<Rightarrow> upload_file option \<Rightarrow> req_user \<Rightarrow> db \<Rightarrow> response \<times> db" where
  "resumes_post_handler sv resumeId now file u d =
     (case file of
        None \<Rightarrow> (respond 400 (ErrorBody ''Resume file is required''), d)
      | Some f \<Rightarrow>
          (case analyzeResume sv (uploadsPath @ ''/'' @ filename f) of
             Inl message \<Rightarrow> (respond 400 (ErrorBody message), d)
           | Inr a \<Rightarrow>
               if user_id u \<notin> set (map u_id (users d))
               then (respond 401 (ErrorBody ''Your session has expired. Please log in again.''), d)
               else
                 (let row = \<lparr>r_id = resumeId, r_user_id = user_id u,
                             file_name = originalname f, file_path = filename f,
                             file_size = f_size f, analysis_results = a,
                             r_created_at = now\<rparr>
                  in (respond 201 (ResumeCreatedBody row a),
                      d\<lparr>resumes := resumes d @ [row]\<rparr>))))"

text \<open>POST /api/resumes: \<open>requireAuth, upload.single("file")\<close>, then the handler.\<close>

definition resumes_post ::
  "lib \<Rightarrow> services \<Rightarrow> string \<Rightarrow> int \<Rightarrow> auth_request \<Rightarrow> upload_file option \<Rightarrow> db
     \<Rightarrow> response \<times> db" where
  "resumes_post l sv resumeId now req part d =
     behindAuth l req
       (\<lambda>u d. case upload l part of
                 Rejected err \<Rightarrow> (internal_error, d)
               | Accepted file \<Rightarrow> resumes_post_handler sv resumeId now file u d) d"

text \<open>GET /api/resumes.\<close>

definition resumes_list :: "req_user \<Rightarrow> db \<Rightarrow> response" where
  "resumes_list u d =
     respond 200 (ResumesBody
       (order_by_desc r_created_at (filter (\<lambda>r. r_user_id r = user_id u) (resumes d))))"

text \<open>GET /api/resumes/:id.\<close>

definition resumes_get :: "req_user \<Rightarrow> string \<Rightarrow> db \<Rightarrow> response" where
  "resumes_get u ident d =
     (case take 1 (filter (\<lambda>r. r_user_id r = user_id u \<and> r_id r = ident) (resumes d)) of
        [] \<Rightarrow> respond 404 (ErrorBody ''Resume not found'')
      | row # _ \<Rightarrow> respond 200 (ResumeBody row))"

section \<open>Server: interviews (routes/interviews.ts)\<close>

text \<open>GET /api/interviews: the newest 50 sessions of the requester, without metadata.\<close>

definition interviews_list :: "req_user \<Rightarrow> db \<Rightarrow> response" where
  "interviews_list u d =
     respond 200 (SessionsBody
       (map session_public.truncate
         (take 50 (order_by_desc s_created_at
            (filter (\<lambda>r. s_user_id r = user_id u) (interview_sessions d))))))"

text \<open>
  The statement of GET /api/interviews/:id,
  \<open>SELECT is.*, j.title as job_title, c.name as company_name FROM interview_sessions is
  LEFT JOIN jobs j ... WHERE is.user_id = $1 AND is.id = $2 LIMIT 1\<close>, names the table
  \<open>is\<close>. That is a reserved word of PostgreSQL, which takes no such alias: the
  statement does not parse, whatever its parameters and whatever the tables hold, and
  \<open>query\<close> throws. Its rows would be a session with the title of its job and the name
  of the job's company.
\<close>

datatype 'a query_result = SyntaxError | Rows "'a list"

definition session_detail_query ::
  "string \<Rightarrow> string \<Rightarrow> db \<Rightarrow> (session_row \<times> string option \<times> string option) query_result" where
  "session_detail_query userId ident d = SyntaxError"

text \<open>GET /api/interviews/:id: what \<open>query\<close> throws goes to \<open>next(error)\<close>.\<close>

definition interviews_get :: "req_user \<Rightarrow> string \<Rightarrow> db \<Rightarrow> response" where
  "interviews_get u ident d =
     (case session_detail_query (user_id u) ident d of
        SyntaxError \<Rightarrow> internal_error
      | Rows [] \<Rightarrow> respond 404 (ErrorBody ''Interview session not found'')
      | Rows ((row, job_title, company_name) # _) \<Rightarrow>
          respond 200 (SessionBody row job_title company_name))"

text \<open>GET /api/interviews/:id/questions and GET /api/interviews/:id/answers.\<close>

definition sessionCheck :: "string \<Rightarrow> req_user \<Rightarrow> db \<Rightarrow> session_row list" where
  "sessionCheck ident u d =
     filter (\<lambda>r. s_id r = ident \<and> s_user_id r = user_id u) (interview_sessions d)"

definition interviews_questions :: "services \<Rightarrow> req_user \<Rightarrow> string \<Rightarrow> db \<Rightarrow> response" where
  "interviews_questions sv u ident d =
     (if sessionCheck ident u d = []
      then respond 404 (ErrorBody ''Interview session not found'')
      else respond 200 (QuestionsBody (getSessionQuestions sv ident)))"

definition interviews_answers :: "services \<Rightarrow> req_user \<Rightarrow> string \<Rightarrow> db \<Rightarrow> response" where
  "interviews_answers sv u ident d =
     (if sessionCheck ident u d = []
      then respond 404 (ErrorBody ''Interview session not found'')
      else respond 200 (AnswersBody (getSessionAnswers sv ident)))"

text \<open>
  The payload of POST /api/interviews/submit-answer. A string field is \<open>None\<close> when it is
  missing or not a string; the two numbers are the values after the schema's
  \<open>preprocess\<close> step (\<open>None\<close> for undefined).
\<close>

record submit_payload =
  sessionId :: "string option"
  questionId :: "string option"
  answerText :: "string option"
  transcriptionConfidence :: "real option"
  audioDuration :: "int option"

definition submitAnswerSchema_parse ::
  "lib \<Rightarrow> submit_payload \<Rightarrow> (string \<times> string \<times> string \<times> real option \<times> int option) option" where
  "submitAnswerSchema_parse l p =
     (case (sessionId p, questionId p, answerText p) of
        (Some s, Some q, Some a) \<Rightarrow>
          if isUuid l s \<and> isUuid l q \<and> 1 \<le> length a
             \<and> (case transcriptionConfidence p of None \<Rightarrow> True | Some c \<Rightarrow> 0 \<le> c \<and> c \<le> 1)
             \<and> (case audioDuration p of None \<Rightarrow> True | Some n \<Rightarrow> 0 \<le> n)
          then Some (s, q, a, transcriptionConfidence p, audioDuration p) else None
      | _ \<Rightarrow> None)"

text \<open>\<open>Array.prototype.findIndex\<close>; \<open>None\<close> is -1.\<close>

fun findIndex :: "('a \<Rightarrow> bool) \<Rightarrow> 'a list \<Rightarrow> nat option" where
  "findIndex P [] = None"
| "findIndex P (x # xs) = (if P x then Some 0 else map_option Suc (findIndex P xs))"

text \<open>
  The handler of POST /api/interviews/submit-answer. A \<open>ZodError\<close> and a throwing
  \<open>createInterviewAnswer\<close> go to \<open>next(error)\<close>.
\<close>

definition submit_answer_handler ::
  "lib \<Rightarrow> services \<Rightarrow> submit_payload \<Rightarrow> upload_file option \<Rightarrow> req_user \<Rightarrow> db
     \<Rightarrow> response \<times> db" where
  "submit_answer_handler l sv p file u d =
     (case submitAnswerSchema_parse l p of
        None \<Rightarrow> (internal_error, d)
      | Some (sid, qid, text, confidence, seconds) \<Rightarrow>
          (case sessionCheck sid u d of
             [] \<Rightarrow> (respond 404 (ErrorBody ''Interview session not found''), d)
           | srow # _ \<Rightarrow>
               (let audioFileName = map_option filename file
                in case createInterviewAnswer sv sid qid text confidence seconds audioFileName of
                     None \<Rightarrow> (internal_error, d)
                   | Some ans \<Rightarrow>
                       (let allQuestions = getSessionQuestions sv sid
                        in case findIndex (\<lambda>q. q_id q = qid) allQuestions of
                             None \<Rightarrow>
                               (respond 400
                                  (ErrorBody ''Question does not belong to this interview''), d)
                           | Some currentQuestionIndex \<Rightarrow>
                               (let md = s_metadata srow;
                                    updatedMetadata =
                                      md\<lparr>questionsAsked :=
                                            Some ((case questionsAsked md of
                                                     None \<Rightarrow> 0 | Some n \<Rightarrow> n) + 1),
                                          currentQuestionNumber :=
                                            Some (int currentQuestionIndex + 2)\<rparr>;
                                    d' = d\<lparr>interview_sessions :=
                                             map (\<lambda>r. if s_id r = sid
                                                       then r\<lparr>s_metadata := updatedMetadata\<rparr>
                                                       else r) (interview_sessions d)\<rparr>;
                                    nextQ =
                                      (if currentQuestionIndex + 1 < length allQuestions
                                       then Some (allQuestions ! (currentQuestionIndex + 1))
                                       else None)
                                in (respond 200 (SubmitAnswerBody
                                      \<lparr>answer = ans, nextQuestion = nextQ,
                                        isComplete = (nextQ = None),
                                        progress_current = currentQuestionIndex + 1,
                                        progress_total = length allQuestions\<rparr>), d'))))))"

text \<open>
  POST /api/interviews/submit-answer: \<open>router.use(requireAuth)\<close>,
  \<open>audioUpload.single("audio")\<close>, then the handler.
\<close>

definition submit_answer ::
  "lib \<Rightarrow> services \<Rightarrow> auth_request \<Rightarrow> submit_payload \<Rightarrow> upload_file option \<Rightarrow> db
     \<Rightarrow> response \<times> db" where
  "submit_answer l sv req p part d =
     behindAuth l req
       (\<lambda>u d. case audioUpload l part of
                 Rejected err \<Rightarrow> (internal_error, d)
               | Accepted file \<Rightarrow> submit_answer_handler l sv p file u d) d"

text \<open>Concrete parameters for evaluating the routes.\<close>

definition test_lib :: lib where
  "test_lib =
     \<lparr>js_trim = trim, js_toLowerCase = toLowerCase,
      isEmail = (\<lambda>s. CHR ''@'' \<in> set s), isUuid = (\<lambda>s. s \<noteq> []),
      bcrypt_hash = (\<lambda>p. ''h:'' @ p), bcrypt_compare = (\<lambda>p h. h = ''h:'' @ p),
      jwt_sign = (\<lambda>u. ''jwt:'' @ user_id u),
      jwt_verify = (\<lambda>t. if take 4 t = ''jwt:''
                         then Some \<lparr>user_id = drop 4 t, user_email = drop 4 t @ ''@b.co''\<rparr>
                         else None),
      production = False, refusesAtLimit = True\<rparr>"

definition example_db :: db where
  "example_db =
     \<lparr>users = [\<lparr>u_id = ''u1'', u_email = ''a@b.co'', password_hash = ''h:secret1''\<rparr>,
               \<lparr>u_id = ''u2'', u_email = ''c@b.co'', password_hash = ''h:secret2''\<rparr>],
      resumes = [\<lparr>r_id = ''r1'', r_user_id = ''u1'', file_name = ''cv.docx'',
                  file_path = ''1-x.docx'', file_size = 10,
                  analysis_results = \<lparr>overallScore = 70, atsScore = 60\<rparr>, r_created_at = 5\<rparr>],
      interview_sessions =
        [\<lparr>s_id = ''s1'', s_user_id = ''u1'', job_id = None, interview_type = ''AI Interview'',
          duration = None, score = None, s_status = ''in_progress'', s_created_at = 7,
          s_metadata = \<lparr>questionsAsked = Some 0, currentQuestionNumber = Some 1\<rparr>\<rparr>]\<rparr>"

text \<open>
  Services over a table of three questions: \<open>q1\<close> and \<open>q2\<close> of session \<open>s1\<close>,
  \<open>q9\<close> of another session \<open>s2\<close>. \<open>interview_answers.question_id\<close> references
  \<open>interview_questions(id)\<close> (the interview migration), so the insert of
  \<open>createInterviewAnswer\<close> violates the key, and the function throws, for an id that no
  question has.
\<close>

definition test_services :: services where
  "test_services =
     \<lparr>getSessionQuestions =
        (\<lambda>sid. if sid = ''s1''
               then [\<lparr>q_id = ''q1'', interview_session_id = ''s1'', question_number = 1,
                      question_text = ''First?''\<rparr>,
                     \<lparr>q_id = ''q2'', interview_session_id = ''s1'', question_number = 2,
                      question_text = ''Second?''\<rparr>]
               else if sid = ''s2''
               then [\<lparr>q_id = ''q9'', interview_session_id = ''s2'', question_number = 1,
                      question_text = ''Other?''\<rparr>]
               else []),
      getSessionAnswers = (\<lambda>sid. []),
      createInterviewAnswer =
        (\<lambda>sid qid text confidence seconds audio.
           if qid \<in> set [''q1'', ''q2'', ''q9'']
           then Some \<lparr>a_id = ''a1'', a_session_id = sid, question_id = qid,
                       answer_text = text, transcription_confidence = confidence,
                       audio_duration = seconds, audio_file_path = audio\<rparr>
           else None),
      analyzeResume = (\<lambda>path. Inr \<lparr>overallScore = 70, atsScore = 60\<rparr>)\<rparr>"

definition example_payload :: "string \<Rightarrow> submit_payload" where
  "example_payload qid =
     \<lparr>sessionId = Some ''s1'', questionId = Some qid, answerText = Some ''I built it.'',
      transcriptionConfidence = None, audioDuration = None\<rparr>"

section \<open>Client: the voice loop (src/utils/RealtimeInterview.ts)\<close>

text \<open>
  The two classes of the file, \<open>RealtimeInterviewSystem\<close> and
  \<open>NaturalInterviewSystem\<close>, are event handlers over an object's fields. A state is a
  record of the fields; an event of the browser (a timer that fires, a result or an error
  of the recogniser, the end of an utterance) is a step on it.
\<close>

datatype category = technical | behavioral | situational | experience | general

datatype difficulty = easy | medium | hard

record InterviewQuestion =
  iq_id :: string
  iq_text :: string
  iq_category :: category
  iq_difficulty :: difficulty
  followUpTopics :: "string list"

datatype role = ai | user

record InterviewMessage =
  role :: role
  m_text :: string
  timestamp :: int

text \<open>The calls of the \<open>options\<close> callbacks, in order.\<close>

datatype callback =
    TranscriptUpdate "InterviewMessage list"
  | AISpeakingChange bool
  | UserSpeakingChange bool
  | QuestionAsked InterviewQuestion
  | InitError

text \<open>
  What a pending \<open>setTimeout\<close> or \<open>setInterval\<close> will run: the interval of the voice
  activity detection, the silence timer, the three delayed \<open>recognition.start()\<close> calls
  (after an error, after \<open>onend\<close>, after an utterance), and the two waits that are
  followed by \<open>askNextQuestion\<close> (500 ms in \<open>processUserResponse\<close>, 1000 ms in
  \<open>start\<close>).
\<close>

datatype task =
    VadInterval
  | SilenceTimeout
  | ErrorRestart
  | EndRestart
  | SpeechEndRestart
  | RespondDelay string
  | FirstQuestionDelay

text \<open>What awaits the promise of the running \<open>speakText\<close>.\<close>

datatype continuation = NoContinuation | AfterGreeting | AfterClosing

text \<open>
  The fields both classes have. \<open>dateNow\<close> is \<open>Date.now()\<close>; \<open>timers\<close> are the
  pending timers as (handle, due time, task); \<open>analyser\<close> says that the field is not
  null; \<open>recognizing\<close> says that \<open>recognition.start()\<close> was the last call on the
  recogniser; \<open>utterances\<close> are the texts handed to \<open>speechSynthesis.speak\<close>.
  \<open>lastSpeechTick\<close> is a history variable that no code reads: the time of the latest
  tick of the detection that classified the user as speaking.
\<close>

record voice_state =
  dateNow :: int
  nextTimerId :: nat
  timers :: "(nat \<times> int \<times> task) list"
  transcript :: "InterviewMessage list"
  isAISpeaking :: bool
  isUserSpeaking :: bool
  silenceTimer :: "nat option"
  userSpeechBuffer :: string
  analyser :: bool
  vadInterval :: "nat option"
  isInitialized :: bool
  conversationActive :: bool
  lastUserSpeechTime :: int
  recognizing :: bool
  utterances :: "string list"
  callbacks :: "callback list"
  lastSpeechTick :: "int option"

record realtime_state = voice_state +
  askedQuestions :: "string set"
  currentQuestion :: "InterviewQuestion option"
  pending :: continuation

record natural_state = voice_state +
  lastSoundDetected :: int

subsection \<open>Timers\<close>

text \<open>\<open>setTimeout\<close> returns the handle \<open>nextTimerId s\<close>.\<close>

definition setTimeout :: "task \<Rightarrow> int \<Rightarrow> 'a voice_state_scheme \<Rightarrow> 'a voice_state_scheme" where
  "setTimeout tk delay s =
     s\<lparr>timers := timers s @ [(nextTimerId s, dateNow s + delay, tk)],
       nextTimerId := Suc (nextTimerId s)\<rparr>"

definition clearTimeout :: "nat \<Rightarrow> 'a voice_state_scheme \<Rightarrow> 'a voice_state_scheme" where
  "clearTimeout h s = s\<lparr>timers := filter (\<lambda>(i, due, tk). i \<noteq> h) (timers s)\<rparr>"

definition clearSilenceTimer :: "'a voice_state_scheme \<Rightarrow> 'a voice_state_scheme" where
  "clearSilenceTimer s =
     (case silenceTimer s of
        None \<Rightarrow> s
      | Some h \<Rightarrow> (clearTimeout h s)\<lparr>silenceTimer := None\<rparr>)"

definition VAD_PERIOD :: int where
  "VAD_PERIOD = 100"

text \<open>\<open>startVoiceActivityDetection\<close>: \<open>setInterval(..., 100)\<close>.\<close>

definition startVoiceActivityDetection :: "'a voice_state_scheme \<Rightarrow> 'a voice_state_scheme" where
  "startVoiceActivityDetection s =
     (setTimeout VadInterval VAD_PERIOD s)\<lparr>vadInterval := Some (nextTimerId s)\<rparr>"

definition stopVoiceActivityDetection :: "'a voice_state_scheme \<Rightarrow> 'a voice_state_scheme" where
  "stopVoiceActivityDetection s =
     (case vadInterval s of
        None \<Rightarrow> s
      | Some h \<Rightarrow> (clearTimeout h s)\<lparr>vadInterval := None\<rparr>)"

text \<open>
  \<open>getAudioLevel\<close>: -100 without an analyser, else the level in dB computed from the
  analyser's data, which is the input \<open>level\<close> of a tick. (An average of 0 gives
  \<open>-Infinity\<close> in the first class; any level below the threshold stands for it.)
\<close>

definition getAudioLevel :: "real \<Rightarrow> 'a voice_state_scheme \<Rightarrow> real" where
  "getAudioLevel level s = (if \<not> analyser s then - 100 else level)"

definition notify :: "callback \<Rightarrow> 'a voice_state_scheme \<Rightarrow> 'a voice_state_scheme" where
  "notify c s = s\<lparr>callbacks := callbacks s @ [c]\<rparr>"

subsection \<open>RealtimeInterviewSystem\<close>

definition SILENCE_DURATION :: int where
  "SILENCE_DURATION = 1500"

definition MIN_SPEECH_DURATION :: int where
  "MIN_SPEECH_DURATION = 500"

definition SPEECH_THRESHOLD :: real where
  "SPEECH_THRESHOLD = - 45"

definition questionPool :: "InterviewQuestion list" where
  "questionPool =
     [\<lparr>iq_id = ''q1'',
       iq_text = ''Tell me about yourself and your background.'',
       iq_category = general, iq_difficulty = easy,
       followUpTopics = [''education'', ''experience'', ''skills'']\<rparr>,
      \<lparr>iq_id = ''q2'',
       iq_text = ''What interests you most about this position?'',
       iq_category = general, iq_difficulty = easy,
       followUpTopics = [''motivation'', ''career goals'']\<rparr>,
      \<lparr>iq_id = ''q3'',
       iq_text = ''Where do you see yourself in five years?'',
       iq_category = general, iq_difficulty = easy,
       followUpTopics = [''ambitions'', ''growth'']\<rparr>,
      \<lparr>iq_id = ''q4'',
       iq_text = ''What are your strongest technical skills?'',
       iq_category = technical, iq_difficulty = easy,
       followUpTopics = [''projects'', ''implementations'']\<rparr>,
      \<lparr>iq_id = ''q5'',
       iq_text = ''Describe a challenging technical problem you solved recently.'',
       iq_category = technical, iq_difficulty = medium,
       followUpTopics = [''problem-solving'', ''methodology'']\<rparr>,
      \<lparr>iq_id = ''q6'',
       iq_text = ''How do you stay updated with the latest technologies in your field?'',
       iq_category = technical, iq_difficulty = easy,
       followUpTopics = [''learning'', ''professional development'']\<rparr>,
      \<lparr>iq_id = ''q7'',
       iq_text = ''Walk me through your approach to debugging a complex issue.'',
       iq_category = technical, iq_difficulty = medium,
       followUpTopics = [''debugging'', ''tools'', ''methodology'']\<rparr>,
      \<lparr>iq_id = ''q8'',
       iq_text = ''Tell me about a time when you had to work with a difficult team member.'',
       iq_category = behavioral, iq_difficulty = medium,
       followUpTopics = [''teamwork'', ''conflict resolution'']\<rparr>,
      \<lparr>iq_id = ''q9'',
       iq_text = ''Describe a situation where you had to meet a tight deadline.'',
       iq_category = behavioral, iq_difficulty = medium,
       followUpTopics = [''time management'', ''pressure handling'']\<rparr>,
      \<lparr>iq_id = ''q10'',
       iq_text = ''Give me an example of when you showed leadership.'',
       iq_category = behavioral, iq_difficulty = medium,
       followUpTopics = [''leadership'', ''initiative'']\<rparr>,
      \<lparr>iq_id = ''q11'',
       iq_text = ''Tell me about a time you failed and what you learned from it.'',
       iq_category = behavioral, iq_difficulty = medium,
       followUpTopics = [''resilience'', ''learning'', ''growth'']\<rparr>,
      \<lparr>iq_id = ''q12'',
       iq_text = ''How would you handle a situation where you disagree with your manager?'',
       iq_category = situational, iq_difficulty = medium,
       followUpTopics = [''communication'', ''professionalism'']\<rparr>,
      \<lparr>iq_id = ''q13'',
       iq_text = ''If you were given conflicting priorities, how would you decide what to work on?'',
       iq_category = situational, iq_difficulty = medium,
       followUpTopics = [''prioritization'', ''decision-making'']\<rparr>,
      \<lparr>iq_id = ''q14'',
       iq_text = ''What would you do if you noticed a team member was struggling with their work?'',
       iq_category = situational, iq_difficulty = easy,
       followUpTopics = [''empathy'', ''collaboration'']\<rparr>,
      \<lparr>iq_id = ''q15'',
       iq_text = ''What project are you most proud of and why?'',
       iq_category = experience, iq_difficulty = easy,
       followUpTopics = [''achievements'', ''impact'']\<rparr>,
      \<lparr>iq_id = ''q16'',
       iq_text = ''Tell me about a time when you had to learn something new quickly.'',
       iq_category = experience, iq_difficulty = medium,
       followUpTopics = [''learning agility'', ''adaptation'']\<rparr>,
      \<lparr>iq_id = ''q17'',
       iq_text = ''Describe your most significant contribution to a team project.'',
       iq_category = experience, iq_difficulty = medium,
       followUpTopics = [''collaboration'', ''value add'']\<rparr>,
      \<lparr>iq_id = ''q18'',
       iq_text = ''How do you balance technical excellence with business requirements?'',
       iq_category = technical, iq_difficulty = hard,
       followUpTopics = [''trade-offs'', ''business acumen'']\<rparr>,
      \<lparr>iq_id = ''q19'',
       iq_text = ''Tell me about a time when you had to make a decision without complete information.'',
       iq_category = behavioral, iq_difficulty = hard,
       followUpTopics = [''decision-making'', ''risk assessment'']\<rparr>,
      \<lparr>iq_id = ''q20'',
       iq_text = ''How do you handle situations where you need to give critical feedback to peers?'',
       iq_category = situational, iq_difficulty = hard,
       followUpTopics = [''communication'', ''leadership'']\<rparr>]"

text \<open>The fields after the constructor; \<open>t0\<close> is \<open>Date.now()\<close> at that moment.\<close>

definition initial :: "int \<Rightarrow> realtime_state" where
  "initial t0 =
     \<lparr>dateNow = t0, nextTimerId = 1, timers = [], transcript = [], isAISpeaking = False,
      isUserSpeaking = False, silenceTimer = None, userSpeechBuffer = [], analyser = False,
      vadInterval = None, isInitialized = False, conversationActive = False,
      lastUserSpeechTime = 0, recognizing = False, utterances = [], callbacks = [],
      lastSpeechTick = None,
      askedQuestions = {}, currentQuestion = None, pending = NoContinuation\<rparr>"

definition startSilenceTimer :: "realtime_state \<Rightarrow> realtime_state" where
  "startSilenceTimer s =
     (let s1 = clearSilenceTimer s;
          timeSinceLastSpeech = dateNow s1 - lastUserSpeechTime s1
      in if timeSinceLastSpeech < MIN_SPEECH_DURATION then s1
         else (setTimeout SilenceTimeout SILENCE_DURATION s1)
                \<lparr>silenceTimer := Some (nextTimerId s1)\<rparr>)"

text \<open>The callback of the detection's interval, with the level the analyser gives.\<close>

definition vadCallback :: "real \<Rightarrow> realtime_state \<Rightarrow> realtime_state" where
  "vadCallback level s =
     (if isAISpeaking s
      then (if isUserSpeaking s
            then notify (UserSpeakingChange False) (s\<lparr>isUserSpeaking := False\<rparr>)
            else s)
      else
        (let audioLevel = getAudioLevel level s;
             isSpeaking = (audioLevel > SPEECH_THRESHOLD);
             s0 = (if isSpeaking then s\<lparr>lastSpeechTick := Some (dateNow s)\<rparr> else s)
         in if isSpeaking \<noteq> isUserSpeaking s0
            then (let s1 = notify (UserSpeakingChange isSpeaking)
                             (s0\<lparr>isUserSpeaking := isSpeaking\<rparr>)
                  in if isSpeaking then clearSilenceTimer s1 else startSilenceTimer s1)
            else s0))"

text \<open>
  \<open>processUserResponse\<close> up to its first \<open>await\<close>; \<open>askNextQuestion(response)\<close>
  follows 500 ms later.
\<close>

definition processUserResponse :: "string \<Rightarrow> realtime_state \<Rightarrow> realtime_state" where
  "processUserResponse response s =
     (let s1 = s\<lparr>transcript := transcript s @
                    [\<lparr>role = user, m_text = response, timestamp = dateNow s\<rparr>]\<rparr>;
          s2 = notify (TranscriptUpdate (transcript s1)) s1
      in setTimeout (RespondDelay response) 500 s2)"

text \<open>The callback of the silence timer.\<close>

definition silenceCallback :: "realtime_state \<Rightarrow> realtime_state" where
  "silenceCallback s =
     (if trim (userSpeechBuffer s) \<noteq> []
      then (processUserResponse (trim (userSpeechBuffer s)) s)\<lparr>userSpeechBuffer := []\<rparr>
      else s)"

text \<open>
  \<open>selectNextQuestion\<close>. \<open>rnd\<close> is the value of \<open>Math.random()\<close>; an index outside
  the array reads \<open>undefined\<close>, which the caller treats like null.
\<close>

definition selectNextQuestion :: "real \<Rightarrow> realtime_state \<Rightarrow> InterviewQuestion option" where
  "selectNextQuestion rnd s =
     (let availableQuestions = filter (\<lambda>q. iq_id q \<notin> askedQuestions s) questionPool
      in if availableQuestions = [] then None
         else
           (let askedCount = card (askedQuestions s);
                targetDifficulty =
                  (if askedCount < 3 then easy else if askedCount < 6 then medium else hard);
                candidates = filter (\<lambda>q. iq_difficulty q = targetDifficulty) availableQuestions;
                candidates = (if candidates = [] then availableQuestions else candidates);
                candidates =
                  (case currentQuestion s of
                     None \<Rightarrow> candidates
                   | Some cq \<Rightarrow>
                       (let differentCategory =
                              filter (\<lambda>q. iq_category q \<noteq> iq_category cq) candidates
                        in if differentCategory \<noteq> [] then differentCategory else candidates));
                randomIndex = \<lfloor>rnd * real (length candidates)\<rfloor>
            in if 0 \<le> randomIndex \<and> randomIndex < int (length candidates)
               then Some (candidates ! nat randomIndex) else None))"

text \<open>
  \<open>speakText\<close> up to \<open>speechSynthesis.speak\<close>; \<open>k\<close> is what awaits its promise.
  \<open>speechSynthesis.cancel()\<close>, called when the AI is already speaking, changes no
  field. The handlers of the one utterance object are replaced, so an earlier promise that
  is still pending is never resolved.
\<close>

definition speakText :: "string \<Rightarrow> continuation \<Rightarrow> realtime_state \<Rightarrow> realtime_state" where
  "speakText txt k s =
     (let s1 = notify (AISpeakingChange True) (s\<lparr>isAISpeaking := True\<rparr>);
          s2 = s1\<lparr>recognizing := False\<rparr>
      in s2\<lparr>utterances := utterances s2 @ [txt], pending := k\<rparr>)"

definition closing :: string where
  "closing = ''Thank you for your responses. That concludes our interview today. We'' @
             [CHR 0x27] @ ''ll be in touch soon with the results.''"

definition askNextQuestion :: "real \<Rightarrow> realtime_state \<Rightarrow> realtime_state" where
  "askNextQuestion rnd s =
     (case selectNextQuestion rnd s of
        None \<Rightarrow> speakText closing AfterClosing s
      | Some question \<Rightarrow>
          (let s1 = s\<lparr>currentQuestion := Some question,
                       askedQuestions := insert (iq_id question) (askedQuestions s)\<rparr>;
               s2 = notify (QuestionAsked question) s1;
               s3 = s2\<lparr>transcript := transcript s2 @
                          [\<lparr>role = ai, m_text = iq_text question, timestamp = dateNow s2\<rparr>]\<rparr>;
               s4 = notify (TranscriptUpdate (transcript s3)) s3
           in speakText (iq_text question) NoContinuation s4))"

text \<open>
  Resolving the promise of \<open>speakText\<close>: \<open>start\<close> waits 1000 ms and asks the first
  question; \<open>askNextQuestion\<close> ends the conversation after the closing message.
\<close>

definition resolve :: "realtime_state \<Rightarrow> realtime_state" where
  "resolve s =
     (case pending s of
        NoContinuation \<Rightarrow> s
      | AfterGreeting \<Rightarrow> setTimeout FirstQuestionDelay 1000 (s\<lparr>pending := NoContinuation\<rparr>)
      | AfterClosing \<Rightarrow> s\<lparr>pending := NoContinuation, conversationActive := False\<rparr>)"

text \<open>\<open>synthesis.onend\<close> and \<open>synthesis.onerror\<close>, as \<open>speakText\<close> sets them.\<close>

definition synthesis_onend :: "realtime_state \<Rightarrow> realtime_state" where
  "synthesis_onend s =
     resolve (setTimeout SpeechEndRestart 300
                (notify (AISpeakingChange False) (s\<lparr>isAISpeaking := False\<rparr>)))"

definition synthesis_onerror :: "realtime_state \<Rightarrow> realtime_state" where
  "synthesis_onerror s =
     resolve (notify (AISpeakingChange False) (s\<lparr>isAISpeaking := False\<rparr>))"

text \<open>
  \<open>recognition.onresult\<close>: the results from \<open>resultIndex\<close> on, each with its
  \<open>isFinal\<close> flag.
\<close>

definition recognition_onresult :: "(string \<times> bool) list \<Rightarrow> realtime_state \<Rightarrow> realtime_state" where
  "recognition_onresult results s =
     (let finalTranscript = concat (map fst (filter snd results))
      in if finalTranscript \<noteq> []
         then s\<lparr>userSpeechBuffer := userSpeechBuffer s @ finalTranscript @ '' '',
                lastUserSpeechTime := dateNow s\<rparr>
         else s)"

text \<open>\<open>recognition.onerror\<close> with \<open>event.error\<close>, and \<open>recognition.onend\<close>.\<close>

definition recognition_onerror :: "string \<Rightarrow> realtime_state \<Rightarrow> realtime_state" where
  "recognition_onerror err s =
     (if err = ''no-speech'' \<or> err = ''audio-capture''
      then setTimeout ErrorRestart 100 s else s)"

definition recognition_onend :: "realtime_state \<Rightarrow> realtime_state" where
  "recognition_onend s =
     (if conversationActive s \<and> \<not> isAISpeaking s then setTimeout EndRestart 100 s else s)"

definition greeting :: string where
  "greeting = ''Hello! Thank you for joining us today. I'' @ [CHR 0x27] @
              ''m your AI interviewer, and I'' @ [CHR 0x27] @
              ''ll be asking you a series of questions to learn more about your '' @
              ''experience and skills. Let'' @ [CHR 0x27] @ ''s get started!''"

text \<open>\<open>start\<close> up to its first \<open>await\<close>; it throws before \<open>initialize\<close> succeeded.\<close>

definition start :: "realtime_state \<Rightarrow> realtime_state" where
  "start s =
     (if \<not> isInitialized s then s
      else
        (let s1 = startVoiceActivityDetection (s\<lparr>conversationActive := True\<rparr>);
             s2 = s1\<lparr>recognizing := True\<rparr>;
             s3 = s2\<lparr>transcript := transcript s2 @
                        [\<lparr>role = ai, m_text = greeting, timestamp = dateNow s2\<rparr>]\<rparr>;
             s4 = notify (TranscriptUpdate (transcript s3)) s3
         in speakText greeting AfterGreeting s4))"

definition stop :: "'a voice_state_scheme \<Rightarrow> 'a voice_state_scheme" where
  "stop s =
     (let s1 = s\<lparr>conversationActive := False, recognizing := False\<rparr>;
          s2 = clearSilenceTimer (stopVoiceActivityDetection s1);
          s3 = s2\<lparr>isAISpeaking := False, isUserSpeaking := False\<rparr>
      in notify (UserSpeakingChange False) (notify (AISpeakingChange False) s3))"

definition cleanup :: "'a voice_state_scheme \<Rightarrow> 'a voice_state_scheme" where
  "cleanup s = (stop s)\<lparr>analyser := False\<rparr>"

text \<open>
  \<open>initialize\<close>: the microphone may be refused, the browser may lack speech
  recognition (the analyser is set by then), or both are there.
\<close>

datatype init_outcome = MicrophoneDenied | RecognitionUnsupported | Granted

definition initialize :: "init_outcome \<Rightarrow> 'a voice_state_scheme \<Rightarrow> 'a voice_state_scheme" where
  "initialize outcome s =
     (case outcome of
        MicrophoneDenied \<Rightarrow> notify InitError s
      | RecognitionUnsupported \<Rightarrow> notify InitError (s\<lparr>analyser := True\<rparr>)
      | Granted \<Rightarrow> s\<lparr>analyser := True, isInitialized := True\<rparr>)"

text \<open>What a timer runs when it fires.\<close>

definition runTask :: "task \<Rightarrow> real \<Rightarrow> real \<Rightarrow> realtime_state \<Rightarrow> realtime_state" where
  "runTask tk level rnd s =
     (case tk of
        VadInterval \<Rightarrow> vadCallback level s
      | SilenceTimeout \<Rightarrow> silenceCallback s
      | ErrorRestart \<Rightarrow> (if conversationActive s then s\<lparr>recognizing := True\<rparr> else s)
      | EndRestart \<Rightarrow> s\<lparr>recognizing := True\<rparr>
      | SpeechEndRestart \<Rightarrow> (if conversationActive s then s\<lparr>recognizing := True\<rparr> else s)
      | RespondDelay response \<Rightarrow> askNextQuestion rnd s
      | FirstQuestionDelay \<Rightarrow> askNextQuestion rnd s)"

text \<open>
  A timer leaves the pending list when it fires; the interval is due again one period
  later.
\<close>

definition dequeue :: "nat \<Rightarrow> task \<Rightarrow> 'a voice_state_scheme \<Rightarrow> 'a voice_state_scheme" where
  "dequeue h tk s =
     (if tk = VadInterval
      then s\<lparr>timers := map (\<lambda>(i, due, t). if i = h then (i, due + VAD_PERIOD, t)
                                          else (i, due, t)) (timers s)\<rparr>
      else clearTimeout h s)"

text \<open>
  The events of the browser and the calls of the page. A timer fires no earlier than it is
  due; \<open>level\<close> is what the analyser gives at that moment and \<open>rnd\<close> the next value of
  \<open>Math.random()\<close>.
\<close>

datatype event =
    Elapse nat
  | TimerFires nat real real
  | RecognitionResult "(string \<times> bool) list"
  | RecognitionError string
  | RecognitionEnd
  | SynthesisEnd
  | SynthesisError
  | Initialize init_outcome
  | Start
  | Stop
  | Cleanup

definition step :: "event \<Rightarrow> realtime_state \<Rightarrow> realtime_state" where
  "step e s =
     (case e of
        Elapse n \<Rightarrow> s\<lparr>dateNow := dateNow s + int n\<rparr>
      | TimerFires h level rnd \<Rightarrow>
          (case find (\<lambda>(i, due, tk). i = h) (timers s) of
             None \<Rightarrow> s
           | Some (i, due, tk) \<Rightarrow>
               if dateNow s < due then s else runTask tk level rnd (dequeue h tk s))
      | RecognitionResult results \<Rightarrow>
          (if isInitialized s then recognition_onresult results s else s)
      | RecognitionError err \<Rightarrow> (if isInitialized s then recognition_onerror err s else s)
      | RecognitionEnd \<Rightarrow>
          (if isInitialized s then recognition_onend (s\<lparr>recognizing := False\<rparr>) else s)
      | SynthesisEnd \<Rightarrow> (if utterances s \<noteq> [] then synthesis_onend s else s)
      | SynthesisError \<Rightarrow> (if utterances s \<noteq> [] then synthesis_onerror s else s)
      | Initialize outcome \<Rightarrow> initialize outcome s
      | Start \<Rightarrow> start s
      | Stop \<Rightarrow> stop s
      | Cleanup \<Rightarrow> cleanup s)"

definition run :: "event list \<Rightarrow> realtime_state \<Rightarrow> realtime_state" where
  "run es s = foldl (\<lambda>s e. step e s) s es"

definition userMessages :: "'a voice_state_scheme \<Rightarrow> InterviewMessage list" where
  "userMessages s = filter (\<lambda>m. role m = user) (transcript s)"

definition askedLog :: "'a voice_state_scheme \<Rightarrow> InterviewQuestion list" where
  "askedLog s = concat (map (\<lambda>c. case c of QuestionAsked q \<Rightarrow> [q] | _ \<Rightarrow> []) (callbacks s))"

subsection \<open>NaturalInterviewSystem\<close>

text \<open>
  The second class has the same fields and \<open>lastSoundDetected\<close>. Its thresholds
  differ, its silence timer checks the elapsed silence when it fires, and its error
  handler restarts on the other errors. The model covers the detection, the silence
  timer, the recogniser's handlers and the speaking flag. Of \<open>processUserResponse\<close> it
  keeps the message pushed to the transcript: what follows (the name it extracts, the
  reply and the question bank) reaches these fields only through \<open>speakText\<close>, which is
  the event \<open>Speak\<close>.
\<close>

definition N_SILENCE_DURATION :: int where
  "N_SILENCE_DURATION = 1500"

definition N_MIN_SPEECH_DURATION :: int where
  "N_MIN_SPEECH_DURATION = 600"

definition N_SPEECH_THRESHOLD :: real where
  "N_SPEECH_THRESHOLD = - 42"

definition n_initial :: "int \<Rightarrow> natural_state" where
  "n_initial t0 =
     \<lparr>dateNow = t0, nextTimerId = 1, timers = [], transcript = [], isAISpeaking = False,
      isUserSpeaking = False, silenceTimer = None, userSpeechBuffer = [], analyser = False,
      vadInterval = None, isInitialized = False, conversationActive = False,
      lastUserSpeechTime = 0, recognizing = False, utterances = [], callbacks = [],
      lastSpeechTick = None, lastSoundDetected = 0\<rparr>"

definition checkSilenceTimeout :: "natural_state \<Rightarrow> natural_state" where
  "checkSilenceTimeout s =
     (let s1 = clearSilenceTimer s
      in (setTimeout SilenceTimeout N_SILENCE_DURATION s1)
           \<lparr>silenceTimer := Some (nextTimerId s1)\<rparr>)"

definition n_vadCallback :: "real \<Rightarrow> natural_state \<Rightarrow> natural_state" where
  "n_vadCallback level s =
     (if isAISpeaking s
      then (if isUserSpeaking s
            then notify (UserSpeakingChange False) (s\<lparr>isUserSpeaking := False\<rparr>)
            else s)
      else
        (let audioLevel = getAudioLevel level s;
             isSpeaking = (audioLevel > N_SPEECH_THRESHOLD);
             s0 = (if isSpeaking
                   then s\<lparr>lastSoundDetected := dateNow s, lastSpeechTick := Some (dateNow s)\<rparr>
                   else s)
         in if isSpeaking \<noteq> isUserSpeaking s0
            then (let s1 = notify (UserSpeakingChange isSpeaking)
                             (s0\<lparr>isUserSpeaking := isSpeaking\<rparr>)
                  in if \<not> isSpeaking \<and> trim (userSpeechBuffer s1) \<noteq> []
                     then checkSilenceTimeout s1 else s1)
            else s0))"

definition n_processUserResponse :: "string \<Rightarrow> natural_state \<Rightarrow> natural_state" where
  "n_processUserResponse response s =
     (let s1 = s\<lparr>transcript := transcript s @
                    [\<lparr>role = user, m_text = response, timestamp = dateNow s\<rparr>]\<rparr>
      in notify (TranscriptUpdate (transcript s1)) s1)"

text \<open>The callback of the silence timer.\<close>

definition n_silenceCallback :: "natural_state \<Rightarrow> natural_state" where
  "n_silenceCallback s =
     (let silenceDuration = dateNow s - lastSoundDetected s;
          speechDuration = lastSoundDetected s - lastUserSpeechTime s
                             + int (length (userSpeechBuffer s)) * 10
      in if trim (userSpeechBuffer s) \<noteq> [] \<and> silenceDuration \<ge> N_SILENCE_DURATION
            \<and> speechDuration \<ge> N_MIN_SPEECH_DURATION
         then (n_processUserResponse (trim (userSpeechBuffer s)) s)\<lparr>userSpeechBuffer := []\<rparr>
         else s)"

definition n_recognition_onresult :: "(string \<times> bool) list \<Rightarrow> natural_state \<Rightarrow> natural_state" where
  "n_recognition_onresult results s =
     (let finalTranscript = concat (map (\<lambda>r. fst r @ '' '') (filter snd results))
      in if finalTranscript \<noteq> []
         then s\<lparr>userSpeechBuffer := userSpeechBuffer s @ finalTranscript,
                lastUserSpeechTime := dateNow s\<rparr>
         else s)"

definition n_recognition_onerror :: "string \<Rightarrow> natural_state \<Rightarrow> natural_state" where
  "n_recognition_onerror err s =
     (if err \<noteq> ''no-speech'' \<and> err \<noteq> ''aborted''
      then setTimeout ErrorRestart 100 s else s)"

definition n_recognition_onend :: "natural_state \<Rightarrow> natural_state" where
  "n_recognition_onend s =
     (if conversationActive s \<and> \<not> isAISpeaking s then setTimeout EndRestart 100 s else s)"

text \<open>\<open>speakText\<close> up to \<open>synthesis.speak\<close>, and the utterance's two handlers.\<close>

definition n_speakText :: "string \<Rightarrow> natural_state \<Rightarrow> natural_state" where
  "n_speakText txt s =
     (let s1 = notify (AISpeakingChange True) (s\<lparr>isAISpeaking := True\<rparr>);
          s2 = s1\<lparr>recognizing := False\<rparr>
      in s2\<lparr>utterances := utterances s2 @ [txt]\<rparr>)"

definition utterance_onend :: "string \<Rightarrow> natural_state \<Rightarrow> natural_state" where
  "utterance_onend txt s =
     (let s1 = notify (AISpeakingChange False) (s\<lparr>isAISpeaking := False\<rparr>);
          s2 = s1\<lparr>transcript := transcript s1 @
                     [\<lparr>role = ai, m_text = txt, timestamp = dateNow s1\<rparr>]\<rparr>;
          s3 = notify (TranscriptUpdate (transcript s2)) s2
      in setTimeout SpeechEndRestart 300 s3)"

definition utterance_onerror :: "natural_state \<Rightarrow> natural_state" where
  "utterance_onerror s = notify (AISpeakingChange False) (s\<lparr>isAISpeaking := False\<rparr>)"

definition n_greeting :: string where
  "n_greeting = ''Hi there! I'' @ [CHR 0x27] @
                ''m PAUL, your AI interviewer for today. May I know your name?''"

definition n_start :: "natural_state \<Rightarrow> natural_state" where
  "n_start s =
     (if \<not> isInitialized s then s
      else
        (let s1 = startVoiceActivityDetection (s\<lparr>conversationActive := True\<rparr>);
             s2 = s1\<lparr>recognizing := True\<rparr>
         in n_speakText n_greeting s2))"

definition n_runTask :: "task \<Rightarrow> real \<Rightarrow> natural_state \<Rightarrow> natural_state" where
  "n_runTask tk level s =
     (case tk of
        VadInterval \<Rightarrow> n_vadCallback level s
      | SilenceTimeout \<Rightarrow> n_silenceCallback s
      | ErrorRestart \<Rightarrow>
          (if conversationActive s \<and> \<not> isAISpeaking s then s\<lparr>recognizing := True\<rparr> else s)
      | EndRestart \<Rightarrow> s\<lparr>recognizing := True\<rparr>
      | SpeechEndRestart \<Rightarrow> (if conversationActive s then s\<lparr>recognizing := True\<rparr> else s)
      | RespondDelay response \<Rightarrow> s
      | FirstQuestionDelay \<Rightarrow> s)"

datatype n_event =
    NElapse nat
  | NTimerFires nat real
  | NRecognitionResult "(string \<times> bool) list"
  | NRecognitionError string
  | NRecognitionEnd
  | Speak string
  | UtteranceEnd string
  | UtteranceError
  | NInitialize init_outcome
  | NStart
  | NStop
  | NCleanup

definition n_step :: "n_event \<Rightarrow> natural_state \<Rightarrow> natural_state" where
  "n_step e s =
     (case e of
        NElapse n \<Rightarrow> s\<lparr>dateNow := dateNow s + int n\<rparr>
      | NTimerFires h level \<Rightarrow>
          (case find (\<lambda>(i, due, tk). i = h) (timers s) of
             None \<Rightarrow> s
           | Some (i, due, tk) \<Rightarrow>
               if dateNow s < due then s else n_runTask tk level (dequeue h tk s))
      | NRecognitionResult results \<Rightarrow>
          (if isInitialized s then n_recognition_onresult results s else s)
      | NRecognitionError err \<Rightarrow> (if isInitialized s then n_recognition_onerror err s else s)
      | NRecognitionEnd \<Rightarrow>
          (if isInitialized s then n_recognition_onend (s\<lparr>recognizing := False\<rparr>) else s)
      | Speak txt \<Rightarrow> n_speakText txt s
      | UtteranceEnd txt \<Rightarrow> (if txt \<in> set (utterances s) then utterance_onend txt s else s)
      | UtteranceError \<Rightarrow> (if utterances s \<noteq> [] then utterance_onerror s else s)
      | NInitialize outcome \<Rightarrow> initialize outcome s
      | NStart \<Rightarrow> n_start s
      | NStop \<Rightarrow> stop s
      | NCleanup \<Rightarrow> cleanup s)"

definition n_run :: "n_event list \<Rightarrow> natural_state \<Rightarrow> natural_state" where
  "n_run es s = foldl (\<lambda>s e. n_step e s) s es"

subsection \<open>Invariants of the voice loop\<close>

text \<open>
  For the first class: a pending silence timer is the one \<open>silenceTimer\<close> holds, the
  user is then not classified as speaking, and the timer is due no earlier than
  \<open>SILENCE_DURATION\<close> after the latest tick that classified the user as speaking.
\<close>

definition silence_inv :: "realtime_state \<Rightarrow> bool" where
  "silence_inv s =
     ((\<forall>x\<in>set (timers s). snd (snd x) = SilenceTimeout \<longrightarrow>
          silenceTimer s = Some (fst x) \<and> \<not> isUserSpeaking s
          \<and> (\<forall>t. lastSpeechTick s = Some t \<longrightarrow> t + SILENCE_DURATION \<le> fst (snd x)))
      \<and> (\<forall>t. lastSpeechTick s = Some t \<longrightarrow> t \<le> dateNow s))"

text \<open>
  For the second class: \<open>lastSoundDetected\<close> is the time of the latest tick that
  classified the user as speaking.
\<close>

definition sound_inv :: "natural_state \<Rightarrow> bool" where
  "sound_inv s = (\<forall>t. lastSpeechTick s = Some t \<longrightarrow> lastSoundDetected s = t)"

text \<open>
  The questions handed to \<open>onQuestionAsked\<close> are pairwise different and their ids are
  in \<open>askedQuestions\<close>.
\<close>

definition asked_inv :: "realtime_state \<Rightarrow> bool" where
  "asked_inv s =
     (distinct (map iq_id (askedLog s)) \<and> set (map iq_id (askedLog s)) \<subseteq> askedQuestions s)"

subsection \<open>Runs used to evaluate the voice loop\<close>

text \<open>
  An interview in which the user answers the first question: the greeting ends at 5000,
  the question is asked at 6000 and ends at 9000, the user is heard at 9100 and the
  recogniser delivers a final result, the detection sees silence at 9800, and the clock
  reaches 11300.
\<close>

definition realtime_answer_trace :: "event list" where
  "realtime_answer_trace =
     [Initialize Granted, Start, Elapse 5000, SynthesisEnd, Elapse 1000, TimerFires 3 0 0,
      Elapse 3000, SynthesisEnd, Elapse 100, TimerFires 1 (- 30) 0,
      RecognitionResult [(''I am a developer'', True)], Elapse 700, TimerFires 1 (- 80) 0,
      Elapse 1500]"

definition natural_answer_trace :: "n_event list" where
  "natural_answer_trace =
     [NInitialize Granted, NStart, NElapse 3000, UtteranceEnd n_greeting, NElapse 100,
      NTimerFires 1 (- 30), NRecognitionResult [(''My name is Sam'', True)], NElapse 600,
      NTimerFires 1 (- 30), NElapse 100, NTimerFires 1 (- 80), NElapse 1500]"

text \<open>
  The user starts to speak in the second between the greeting and the first question.
\<close>

definition overlap_trace :: "event list" where
  "overlap_trace =
     [Initialize Granted, Start, Elapse 5000, SynthesisEnd, Elapse 100, TimerFires 1 (- 30) 0,
      Elapse 900, TimerFires 3 0 0]"

definition all_asked :: realtime_state where
  "all_asked = (initial 0)\<lparr>askedQuestions := set (map iq_id questionPool)\<rparr>"

text \<open>Two states with the same questions asked and the same user messages.\<close>

definition same_log :: "realtime_state \<Rightarrow> realtime_state \<Rightarrow> bool" where
  "same_log s' s = (askedLog s' = askedLog s \<and> askedQuestions s' = askedQuestions s
      \<and> userMessages s' = userMessages s)"

section \<open>Theorems: the server\<close>

subsection \<open>Registration\<close>

text \<open>
  C4, as stated, fails: the handler validates the body first. With a row for
  \<open>a@b.co\<close> in the table, a registration for \<open>a@b.co\<close> whose password has three
  characters is answered 400, not 409.
\<close>

theorem register_short_password_counterexample:
  "map u_email (users example_db) = [toLowerCase ''a@b.co'', ''c@b.co'']
   \<and> status (fst (register test_lib ''u3''
        \<lparr>email_field = Some ''a@b.co'', password_field = Some ''123''\<rparr> example_db)) = 400"
  by code_simp

text \<open>
  C4, amended. A body passes \<open>credentialsSchema\<close> exactly when both fields are strings,
  the trimmed e-mail is an e-mail address and the password has 6 to 128 characters. For
  a body that passes, POST /api/auth/register answers 409 "Email already registered",
  and leaves the table as it was, exactly when a row has the trimmed, lower-cased
  e-mail; otherwise it appends a row with that e-mail and the bcrypt hash of the
  password and answers 201 with the token and the user, the token also in an httpOnly
  \<open>accessToken\<close> cookie. A body that does not pass is answered 400, and nothing is
  inserted, whether or not its e-mail is registered.
\<close>

theorem register_valid_body:
  "(credentialsSchema_parse l b = None \<longleftrightarrow>
      \<not> (\<exists>e p. email_field b = Some e \<and> password_field b = Some p \<and> isEmail l (js_trim l e)
              \<and> 6 \<le> length p \<and> length p \<le> 128))
   \<and> (credentialsSchema_parse l b = None \<longrightarrow>
        register l userId b d = (respond 400 ValidationErrorBody, d))
   \<and> (credentialsSchema_parse l b = Some (email, password) \<longrightarrow>
        (\<exists>e. email_field b = Some e \<and> email = js_trim l e)
        \<and> password_field b = Some password
        \<and> (status (fst (register l userId b d)) = 409
              \<longleftrightarrow> (\<exists>u\<in>set (users d). u_email u = js_toLowerCase l email))
        \<and> ((\<exists>u\<in>set (users d). u_email u = js_toLowerCase l email) \<longrightarrow>
              register l userId b d = (respond 409 (ErrorBody ''Email already registered''), d))
        \<and> (\<not> (\<exists>u\<in>set (users d). u_email u = js_toLowerCase l email) \<longrightarrow>
              (let r = fst (register l userId b d); d' = snd (register l userId b d);
                   usr = \<lparr>user_id = userId, user_email = js_toLowerCase l email\<rparr>
               in status r = 201 \<and> body r = AuthBody (jwt_sign l usr) usr
                  \<and> (\<exists>c. set_cookie r = Some c \<and> httpOnly c \<and> cookie_name c = ''accessToken''
                         \<and> cookie_value c = jwt_sign l usr)
                  \<and> d' = d\<lparr>users := users d @
                             [\<lparr>u_id = userId, u_email = js_toLowerCase l email,
                               password_hash = bcrypt_hash l password\<rparr>]\<rparr>)))"
proof (intro conjI impI)
  show "credentialsSchema_parse l b = None \<longleftrightarrow>
      \<not> (\<exists>e p. email_field b = Some e \<and> password_field b = Some p \<and> isEmail l (js_trim l e)
              \<and> 6 \<le> length p \<and> length p \<le> 128)"
    by (auto simp: credentialsSchema_parse_def split: option.splits)
next
  assume "credentialsSchema_parse l b = None"
  then show "register l userId b d = (respond 400 ValidationErrorBody, d)"
    by (simp add: register_def)
next
  assume p: "credentialsSchema_parse l b = Some (email, password)"
  then show "\<exists>e. email_field b = Some e \<and> email = js_trim l e"
    by (auto simp: credentialsSchema_parse_def split: option.splits if_splits)
  from p show "password_field b = Some password"
    by (auto simp: credentialsSchema_parse_def split: option.splits if_splits)
  from p show "status (fst (register l userId b d)) = 409
              \<longleftrightarrow> (\<exists>u\<in>set (users d). u_email u = js_toLowerCase l email)"
    by (auto simp: register_def Let_def filter_empty_conv setAuthCookie_def respond_def)
next
  assume "credentialsSchema_parse l b = Some (email, password)"
    and "\<exists>u\<in>set (users d). u_email u = js_toLowerCase l email"
  then show "register l userId b d = (respond 409 (ErrorBody ''Email already registered''), d)"
    by (auto simp: register_def Let_def filter_empty_conv)
next
  assume "credentialsSchema_parse l b = Some (email, password)"
    and "\<not> (\<exists>u\<in>set (users d). u_email u = js_toLowerCase l email)"
  then show "let r = fst (register l userId b d); d' = snd (register l userId b d);
                   usr = \<lparr>user_id = userId, user_email = js_toLowerCase l email\<rparr>
               in status r = 201 \<and> body r = AuthBody (jwt_sign l usr) usr
                  \<and> (\<exists>c. set_cookie r = Some c \<and> httpOnly c \<and> cookie_name c = ''accessToken''
                         \<and> cookie_value c = jwt_sign l usr)
                  \<and> d' = d\<lparr>users := users d @
                             [\<lparr>u_id = userId, u_email = js_toLowerCase l email,
                               password_hash = bcrypt_hash l password\<rparr>]\<rparr>"
    by (auto simp: register_def Let_def filter_empty_conv setAuthCookie_def respond_def
        buildToken_def)
qed

theorem register_valid_body_witness:
  "register test_lib ''u3''
     \<lparr>email_field = Some (CHR 0xA0 # ''A@b.co ''), password_field = Some ''secret9''\<rparr> example_db
     = (respond 409 (ErrorBody ''Email already registered''), example_db)
   \<and> status (fst (register test_lib ''u3''
        \<lparr>email_field = Some ''d@b.co'', password_field = Some ''secret9''\<rparr> example_db)) = 201
   \<and> register test_lib ''u3''
        \<lparr>email_field = Some ''d@b.co'', password_field = Some ''12345''\<rparr> example_db
     = (respond 400 ValidationErrorBody, example_db)"
proof -
  let ?b1 = "\<lparr>email_field = Some (CHR 0xA0 # ''A@b.co ''), password_field = Some ''secret9''\<rparr>"
  let ?b2 = "\<lparr>email_field = Some ''d@b.co'', password_field = Some ''secret9''\<rparr>"
  let ?b3 = "\<lparr>email_field = Some ''d@b.co'', password_field = Some ''12345''\<rparr>"
  have h1: "credentialsSchema_parse test_lib ?b1 = Some (''A@b.co'', ''secret9'')"
    by code_simp
  have h2: "credentialsSchema_parse test_lib ?b2 = Some (''d@b.co'', ''secret9'')"
    by code_simp
  have h3: "credentialsSchema_parse test_lib ?b3 = None"
    by code_simp
  have e1: "\<exists>u\<in>set (users example_db). u_email u = js_toLowerCase test_lib ''A@b.co''"
    by code_simp
  have e2: "\<not> (\<exists>u\<in>set (users example_db). u_email u = js_toLowerCase test_lib ''d@b.co'')"
    by code_simp
  from register_valid_body [of test_lib ?b1 "''u3''" example_db "''A@b.co''" "''secret9''"] h1 e1
  have a: "register test_lib ''u3'' ?b1 example_db
           = (respond 409 (ErrorBody ''Email already registered''), example_db)"
    by blast
  from register_valid_body [of test_lib ?b2 "''u3''" example_db "''d@b.co''" "''secret9''"] h2 e2
  have b: "status (fst (register test_lib ''u3'' ?b2 example_db)) = 201"
    by (simp add: Let_def)
  from register_valid_body [of test_lib ?b3 "''u3''" example_db "''''" "''''"] h3
  have c: "register test_lib ''u3'' ?b3 example_db = (respond 400 ValidationErrorBody, example_db)"
    by blast
  from a b c show ?thesis by simp
qed

subsection \<open>Login\<close>



subsection \<open>The authentication middleware\<close>




subsection \<open>Uploads\<close>

lemma multer_single_rejects:
  "filt f \<noteq> None \<or> n < f_size f \<Longrightarrow> \<exists>err. multer_single l n filt (Some f) = Rejected err"
  by (auto simp: multer_single_def split: option.splits)

lemma multer_single_accepted:
  "multer_single l n filt (Some f) = Accepted x \<Longrightarrow> x = Some f \<and> filt f = None \<and> f_size f \<le> n"
  by (auto simp: multer_single_def split: option.splits if_splits)

text \<open>
  C7: the resume upload refuses every file whose mimetype is not the DOCX type or whose
  size exceeds 5 * 1024 * 1024 bytes, and POST /api/resumes then changes nothing and
  answers with an error status; an authenticated POST /api/resumes without a file is
  answered 400; a file that the audio upload of POST /api/interviews/submit-answer
  accepts has a listed audio mimetype and at most 25 * 1024 * 1024 bytes; and that
  upload refuses every file of more than 25 * 1024 * 1024 bytes or of another mimetype,
  the route then changing nothing and answering with an error status.
\<close>

theorem upload_limits:
  "resume_allowed = [''application/vnd.openxmlformats-officedocument.wordprocessingml.document'']
   \<and> resume_fileSize = 5242880 \<and> audio_fileSize = 26214400
   \<and> (mimetype f \<notin> set resume_allowed \<or> 5 * 1024 * 1024 < f_size f \<longrightarrow>
        (\<exists>err. upload l (Some f) = Rejected err)
        \<and> snd (resumes_post l sv resumeId now req (Some f) d) = d
        \<and> status (fst (resumes_post l sv resumeId now req (Some f) d)) \<in> {401, 500})
   \<and> (requireAuth l req = Inr u \<longrightarrow>
        resumes_post l sv resumeId now req None d
          = (respond 400 (ErrorBody ''Resume file is required''), d))
   \<and> (audioUpload l (Some g) = Accepted x \<longrightarrow>
        x = Some g \<and> mimetype g \<in> set allowedAudioTypes \<and> f_size g \<le> 25 * 1024 * 1024)
   \<and> (mimetype g \<notin> set allowedAudioTypes \<or> 25 * 1024 * 1024 < f_size g \<longrightarrow>
        (\<exists>err. audioUpload l (Some g) = Rejected err)
        \<and> snd (submit_answer l sv req p (Some g) d) = d
        \<and> status (fst (submit_answer l sv req p (Some g) d)) \<in> {401, 500})"
proof -
  have r2: "mimetype f \<notin> set resume_allowed \<or> 5 * 1024 * 1024 < f_size f \<Longrightarrow>
        (\<exists>err. upload l (Some f) = Rejected err)
        \<and> snd (resumes_post l sv resumeId now req (Some f) d) = d
        \<and> status (fst (resumes_post l sv resumeId now req (Some f) d)) \<in> {401, 500}"
  proof -
    assume "mimetype f \<notin> set resume_allowed \<or> 5 * 1024 * 1024 < f_size f"
    then have "resume_fileFilter f \<noteq> None \<or> resume_fileSize < f_size f"
      by (auto simp: resume_fileFilter_def resume_fileSize_def)
    then obtain err where e: "upload l (Some f) = Rejected err"
      unfolding upload_def using multer_single_rejects by blast
    then show ?thesis
      by (auto simp: resumes_post_def behindAuth_def requireAuth_def internal_error_def
          respond_def split: option.splits sum.splits)
  qed
  have r3: "requireAuth l req = Inr u \<Longrightarrow>
        resumes_post l sv resumeId now req None d
          = (respond 400 (ErrorBody ''Resume file is required''), d)"
    by (simp add: resumes_post_def behindAuth_def upload_def multer_single_def
        resumes_post_handler_def)
  have a1: "audioUpload l (Some g) = Accepted x \<Longrightarrow>
        x = Some g \<and> mimetype g \<in> set allowedAudioTypes \<and> f_size g \<le> 25 * 1024 * 1024"
  proof -
    assume "audioUpload l (Some g) = Accepted x"
    then have "x = Some g \<and> audio_fileFilter g = None \<and> f_size g \<le> audio_fileSize"
      unfolding audioUpload_def by (rule multer_single_accepted)
    then show ?thesis
      by (auto simp: audio_fileFilter_def audio_fileSize_def split: if_splits)
  qed
  have a3: "mimetype g \<notin> set allowedAudioTypes \<or> 25 * 1024 * 1024 < f_size g \<Longrightarrow>
        (\<exists>err. audioUpload l (Some g) = Rejected err)
        \<and> snd (submit_answer l sv req p (Some g) d) = d
        \<and> status (fst (submit_answer l sv req p (Some g) d)) \<in> {401, 500}"
  proof -
    assume "mimetype g \<notin> set allowedAudioTypes \<or> 25 * 1024 * 1024 < f_size g"
    then have "audio_fileFilter g \<noteq> None \<or> audio_fileSize < f_size g"
      by (auto simp: audio_fileFilter_def audio_fileSize_def)
    then obtain err where e: "audioUpload l (Some g) = Rejected err"
      unfolding audioUpload_def using multer_single_rejects by blast
    then show ?thesis
      by (auto simp: submit_answer_def behindAuth_def requireAuth_def internal_error_def
          respond_def split: option.splits sum.splits)
  qed
  show ?thesis
    using r2 r3 a1 a3
    by (simp add: resume_allowed_def resume_fileSize_def audio_fileSize_def)
qed

theorem upload_limits_witness:
  "(\<exists>err. upload test_lib (Some \<lparr>originalname = ''cv.pdf'', mimetype = ''application/pdf'',
        f_size = 10, filename = ''1-a.pdf''\<rparr>) = Rejected err)
   \<and> (\<exists>err. upload test_lib (Some \<lparr>originalname = ''cv.docx'',
        mimetype = ''application/vnd.openxmlformats-officedocument.wordprocessingml.document'',
        f_size = 5242881, filename = ''1-a.docx''\<rparr>) = Rejected err)
   \<and> resumes_post test_lib test_services ''r9'' 0
        \<lparr>accessToken = Some ''jwt:u1'', authorization = None\<rparr> None example_db
      = (respond 400 (ErrorBody ''Resume file is required''), example_db)
   \<and> audioUpload test_lib (Some \<lparr>originalname = ''a.webm'', mimetype = ''audio/webm'',
        f_size = 1000, filename = ''1-a.webm''\<rparr>)
      = Accepted (Some \<lparr>originalname = ''a.webm'', mimetype = ''audio/webm'', f_size = 1000,
                          filename = ''1-a.webm''\<rparr>)
   \<and> mimetype \<lparr>originalname = ''a.webm'', mimetype = ''audio/webm'', f_size = 1000,
                 filename = ''1-a.webm''\<rparr> \<in> set allowedAudioTypes
   \<and> (\<exists>err. audioUpload test_lib (Some \<lparr>originalname = ''a.webm'', mimetype = ''audio/webm'',
        f_size = 26214401, filename = ''1-a.webm''\<rparr>) = Rejected err)"
proof -
  let ?pdf = "\<lparr>originalname = ''cv.pdf'', mimetype = ''application/pdf'', f_size = 10,
                            filename = ''1-a.pdf''\<rparr>"
  let ?docx = "\<lparr>originalname = ''cv.docx'',
        mimetype = ''application/vnd.openxmlformats-officedocument.wordprocessingml.document'',
        f_size = 5242881, filename = ''1-a.docx''\<rparr>"
  let ?ok = "\<lparr>originalname = ''a.webm'', mimetype = ''audio/webm'', f_size = 1000,
                          filename = ''1-a.webm''\<rparr>"
  let ?big = "\<lparr>originalname = ''a.webm'', mimetype = ''audio/webm'',
                                 f_size = 26214401, filename = ''1-a.webm''\<rparr>"
  let ?req = "\<lparr>accessToken = Some ''jwt:u1'', authorization = None\<rparr>"
  let ?u = "\<lparr>user_id = ''u1'', user_email = ''u1@b.co''\<rparr>"
  have au: "requireAuth test_lib ?req = Inr ?u"
    by (simp add: requireAuth_def selectToken_def truthy_def test_lib_def)
  have "mimetype ?pdf \<notin> set resume_allowed \<or> 5 * 1024 * 1024 < f_size ?pdf
        \<longrightarrow> (\<exists>err. upload test_lib (Some ?pdf) = Rejected err)"
    using upload_limits [where f = ?pdf and l = test_lib] by blast
  then have c1: "\<exists>err. upload test_lib (Some ?pdf) = Rejected err"
    by (simp add: resume_allowed_def)
  have "mimetype ?docx \<notin> set resume_allowed \<or> 5 * 1024 * 1024 < f_size ?docx
        \<longrightarrow> (\<exists>err. upload test_lib (Some ?docx) = Rejected err)"
    using upload_limits [where f = ?docx and l = test_lib] by blast
  then have c2: "\<exists>err. upload test_lib (Some ?docx) = Rejected err"
    by simp
  have c3: "resumes_post test_lib test_services ''r9'' 0 ?req None example_db
      = (respond 400 (ErrorBody ''Resume file is required''), example_db)"
    using upload_limits [where l = test_lib and req = ?req and u = ?u] au by blast
  have c4: "audioUpload test_lib (Some ?ok) = Accepted (Some ?ok)"
    by (simp add: audioUpload_def multer_single_def audio_fileFilter_def allowedAudioTypes_def
        audio_fileSize_def test_lib_def)
  have "audioUpload test_lib (Some ?ok) = Accepted (Some ?ok)
        \<longrightarrow> mimetype ?ok \<in> set allowedAudioTypes"
    using upload_limits [where g = ?ok and l = test_lib and x = "Some ?ok"] by blast
  with c4 have c5: "mimetype ?ok \<in> set allowedAudioTypes"
    by blast
  have "mimetype ?big \<notin> set allowedAudioTypes \<or> 25 * 1024 * 1024 < f_size ?big
        \<longrightarrow> (\<exists>err. audioUpload test_lib (Some ?big) = Rejected err)"
    using upload_limits [where g = ?big and l = test_lib] by blast
  then have c6: "\<exists>err. audioUpload test_lib (Some ?big) = Rejected err"
    by simp
  from c1 c2 c3 c4 c5 c6 show ?thesis by blast
qed

subsection \<open>Submitting an answer\<close>

lemma findIndex_Some:
  "findIndex P xs = Some i \<longleftrightarrow> i < length xs \<and> P (xs ! i) \<and> (\<forall>j<i. \<not> P (xs ! j))"
proof (induction xs arbitrary: i)
  case Nil
  then show ?case by simp
next
  case (Cons x xs)
  show ?case
  proof (cases "P x")
    case True
    then show ?thesis by (cases i) auto
  next
    case False
    show ?thesis
    proof (cases i)
      case 0
      with False show ?thesis by simp
    next
      case (Suc k)
      with False Cons.IH [of k] show ?thesis
        by (auto simp: less_Suc_eq_0_disj)
    qed
  qed
qed

lemma findIndex_None: "findIndex P xs = None \<longleftrightarrow> (\<forall>x\<in>set xs. \<not> P x)"
  by (induction xs) auto

lemma submit_answer_handler_200:
  assumes "submit_answer_handler l sv p file u d = (r, d')" and "status r = 200"
  shows "\<exists>sid qid i ans. sessionId p = Some sid \<and> questionId p = Some qid
           \<and> sessionCheck sid u d \<noteq> []
           \<and> findIndex (\<lambda>q. q_id q = qid) (getSessionQuestions sv sid) = Some i
           \<and> body r = SubmitAnswerBody
                \<lparr>answer = ans,
                 nextQuestion = (if i + 1 < length (getSessionQuestions sv sid)
                                 then Some (getSessionQuestions sv sid ! (i + 1)) else None),
                 isComplete = (i + 1 = length (getSessionQuestions sv sid)),
                 progress_current = i + 1,
                 progress_total = length (getSessionQuestions sv sid)\<rparr>"
  using assms
  apply (simp add: submit_answer_handler_def submitAnswerSchema_parse_def internal_error_def
      respond_def Let_def
      split: option.splits list.splits if_splits prod.splits)
  apply (auto simp: findIndex_Some)
  done

lemma requireAuth_Inl_status:
  "requireAuth l req = Inl r \<Longrightarrow> status r = 401"
  by (auto simp: requireAuth_def respond_def split: option.splits)

lemma submit_answer_200:
  assumes "submit_answer l sv req p part d = (r, d')" and "status r = 200"
  shows "\<exists>u fl. requireAuth l req = Inr u \<and> submit_answer_handler l sv p fl u d = (r, d')"
proof (cases "requireAuth l req")
  case (Inl x)
  with assms(1) have "r = x" by (simp add: submit_answer_def behindAuth_def)
  with Inl assms(2) show ?thesis by (auto dest: requireAuth_Inl_status)
next
  case (Inr u)
  show ?thesis
  proof (cases "audioUpload l part")
    case (Rejected err)
    with Inr assms(1) have "r = internal_error" by (simp add: submit_answer_def behindAuth_def)
    with assms(2) show ?thesis by (simp add: internal_error_def respond_def)
  next
    case (Accepted fl)
    with Inr assms(1) have "submit_answer_handler l sv p fl u d = (r, d')"
      by (simp add: submit_answer_def behindAuth_def)
    with Inr show ?thesis by blast
  qed
qed

text \<open>
  What a 200 of the route says: the requester is authenticated and owns the session,
  the answered question is at index \<open>i\<close> of the session's questions
  (\<open>getSessionQuestions\<close>), and the body has \<open>progress.current = i + 1\<close>,
  \<open>progress.total\<close> the number of questions, \<open>nextQuestion\<close> the question at
  \<open>i + 1\<close> or null when there is none, and \<open>isComplete\<close> true exactly when \<open>i\<close>
  is the last index.
\<close>

lemma submit_answer_200_progress:
  assumes "submit_answer l sv req p part d = (r, d')" and "status r = 200"
  shows "\<exists>u sid qid i ans. requireAuth l req = Inr u
           \<and> sessionId p = Some sid \<and> questionId p = Some qid
           \<and> sessionCheck sid u d \<noteq> []
           \<and> findIndex (\<lambda>q. q_id q = qid) (getSessionQuestions sv sid) = Some i
           \<and> i < length (getSessionQuestions sv sid)
           \<and> q_id (getSessionQuestions sv sid ! i) = qid
           \<and> body r = SubmitAnswerBody
                \<lparr>answer = ans,
                 nextQuestion = (if i + 1 < length (getSessionQuestions sv sid)
                                 then Some (getSessionQuestions sv sid ! (i + 1)) else None),
                 isComplete = (i + 1 = length (getSessionQuestions sv sid)),
                 progress_current = i + 1,
                 progress_total = length (getSessionQuestions sv sid)\<rparr>"
proof -
  from assms obtain u fl where u: "requireAuth l req = Inr u"
    and h: "submit_answer_handler l sv p fl u d = (r, d')"
    using submit_answer_200 by blast
  from submit_answer_handler_200 [OF h assms(2)] obtain sid qid i ans where
    f: "sessionId p = Some sid" "questionId p = Some qid" "sessionCheck sid u d \<noteq> []"
       "findIndex (\<lambda>q. q_id q = qid) (getSessionQuestions sv sid) = Some i"
       "body r = SubmitAnswerBody
                \<lparr>answer = ans,
                 nextQuestion = (if i + 1 < length (getSessionQuestions sv sid)
                                 then Some (getSessionQuestions sv sid ! (i + 1)) else None),
                 isComplete = (i + 1 = length (getSessionQuestions sv sid)),
                 progress_current = i + 1,
                 progress_total = length (getSessionQuestions sv sid)\<rparr>"
    by blast
  from f(4) have g: "i < length (getSessionQuestions sv sid)"
    "q_id (getSessionQuestions sv sid ! i) = qid"
    by (simp_all add: findIndex_Some)
  show ?thesis
    apply (rule exI [of _ u], rule exI [of _ sid], rule exI [of _ qid], rule exI [of _ i],
        rule exI [of _ ans])
    apply (intro conjI)
           apply (rule u, rule f(1), rule f(2), rule f(3), rule f(4), rule g(1), rule g(2), rule f(5))
    done
qed

text \<open>
  The answer is stored before the question is looked up among the session's questions:
  for an owned session and a payload that parses, the route answers 500 when
  \<open>createInterviewAnswer\<close> throws, whatever the question id, and reaches the 400 of
  "Question does not belong to this interview" only with the answer stored.
\<close>

lemma submit_answer_insert_first:
  assumes "requireAuth l req = Inr v" and "audioUpload l part = Accepted fl"
    and "submitAnswerSchema_parse l p = Some (sid, qid, atext, confidence, seconds)"
    and "sessionCheck sid v d \<noteq> []"
  shows "createInterviewAnswer sv sid qid atext confidence seconds (map_option filename fl) = None
           \<Longrightarrow> submit_answer l sv req p part d = (internal_error, d)"
    and "createInterviewAnswer sv sid qid atext confidence seconds (map_option filename fl) \<noteq> None
           \<Longrightarrow> qid \<notin> q_id ` set (getSessionQuestions sv sid)
           \<Longrightarrow> submit_answer l sv req p part d
                = (respond 400 (ErrorBody ''Question does not belong to this interview''), d)"
proof -
  from assms(4) obtain srow rest where s: "sessionCheck sid v d = srow # rest"
    by (cases "sessionCheck sid v d") auto
  have e: "submit_answer l sv req p part d = submit_answer_handler l sv p fl v d"
    using assms(1,2) by (simp add: submit_answer_def behindAuth_def)
  show "submit_answer l sv req p part d = (internal_error, d)"
    if "createInterviewAnswer sv sid qid atext confidence seconds (map_option filename fl) = None"
    using that by (simp add: e submit_answer_handler_def assms(3) s)
  show "submit_answer l sv req p part d
          = (respond 400 (ErrorBody ''Question does not belong to this interview''), d)"
    if c: "createInterviewAnswer sv sid qid atext confidence seconds (map_option filename fl) \<noteq> None"
      and n: "qid \<notin> q_id ` set (getSessionQuestions sv sid)"
  proof -
    from c obtain ans where
      c': "createInterviewAnswer sv sid qid atext confidence seconds (map_option filename fl) = Some ans"
      by auto
    from n have n': "findIndex (\<lambda>q. q_id q = qid) (getSessionQuestions sv sid) = None"
      by (auto simp: findIndex_None)
    show ?thesis
      by (simp add: e submit_answer_handler_def assms(3) s c' n')
  qed
qed

text \<open>
  C8 holds in its first part (a 200 carries the progress of the answered question) and
  fails in its last: user \<open>u1\<close> owns session \<open>s1\<close>, whose questions are \<open>q1\<close> and \<open>q2\<close>,
  and submits a well-formed answer to \<open>q7\<close>, the id of no question. The insert of the
  answer comes first and violates the foreign key, so the request ends in the error
  middleware with 500 and never reaches the check that answers 400. With \<open>q9\<close>, a
  question of another session, the answer is stored and the check answers 400.
\<close>

theorem submit_answer_unknown_question:
  "requireAuth test_lib \<lparr>accessToken = Some ''jwt:u1'', authorization = None\<rparr>
     = Inr \<lparr>user_id = ''u1'', user_email = ''u1@b.co''\<rparr>
   \<and> map q_id (getSessionQuestions test_services ''s1'') = [''q1'', ''q2'']
   \<and> submit_answer test_lib test_services \<lparr>accessToken = Some ''jwt:u1'', authorization = None\<rparr>
        (example_payload ''q7'') None example_db
      = (respond 500 (ErrorBody ''Internal server error''), example_db)
   \<and> submit_answer test_lib test_services \<lparr>accessToken = Some ''jwt:u1'', authorization = None\<rparr>
        (example_payload ''q9'') None example_db
      = (respond 400 (ErrorBody ''Question does not belong to this interview''), example_db)
   \<and> status (fst (submit_answer test_lib test_services
        \<lparr>accessToken = Some ''jwt:u1'', authorization = None\<rparr>
        (example_payload ''q2'') None example_db)) = 200"
proof -
  let ?req = "\<lparr>accessToken = Some ''jwt:u1'', authorization = None\<rparr>"
  let ?u = "\<lparr>user_id = ''u1'', user_email = ''u1@b.co''\<rparr>"
  have au: "requireAuth test_lib ?req = Inr ?u"
    by (simp add: requireAuth_def selectToken_def truthy_def test_lib_def)
  have up: "audioUpload test_lib None = Accepted None"
    by (simp add: audioUpload_def multer_single_def)
  have sc: "sessionCheck ''s1'' ?u example_db \<noteq> []"
    by (simp add: sessionCheck_def example_db_def)
  then obtain srow rest where sr: "sessionCheck ''s1'' ?u example_db = srow # rest"
    by (cases "sessionCheck ''s1'' ?u example_db") auto
  have qs: "getSessionQuestions test_services ''s1''
     = [\<lparr>q_id = ''q1'', interview_session_id = ''s1'', question_number = 1,
          question_text = ''First?''\<rparr>,
        \<lparr>q_id = ''q2'', interview_session_id = ''s1'', question_number = 2,
          question_text = ''Second?''\<rparr>]"
    by (simp add: test_services_def)
  have pp: "submitAnswerSchema_parse test_lib (example_payload qid)
      = (if qid = [] then None else Some (''s1'', qid, ''I built it.'', None, None))" for qid
    by (simp add: submitAnswerSchema_parse_def example_payload_def test_lib_def)
  have c7: "createInterviewAnswer test_services ''s1'' ''q7'' ''I built it.'' None None None = None"
    by (simp add: test_services_def)
  obtain a9 where c9: "createInterviewAnswer test_services ''s1'' ''q9'' ''I built it.'' None None
      None = Some a9"
    by (simp add: test_services_def)
  obtain a2 where c2: "createInterviewAnswer test_services ''s1'' ''q2'' ''I built it.'' None None
      None = Some a2"
    by (simp add: test_services_def)
  have f9: "findIndex (\<lambda>q. q_id q = ''q9'') (getSessionQuestions test_services ''s1'') = None"
    by (simp add: qs)
  have f2: "findIndex (\<lambda>q. q_id q = ''q2'') (getSessionQuestions test_services ''s1'') = Some 1"
    by (simp add: qs)
  have e: "submit_answer test_lib test_services ?req p None example_db
      = submit_answer_handler test_lib test_services p None ?u example_db" for p
    by (simp add: submit_answer_def behindAuth_def au up)
  have r7: "submit_answer test_lib test_services ?req (example_payload ''q7'') None example_db
      = (respond 500 (ErrorBody ''Internal server error''), example_db)"
    by (simp add: e submit_answer_handler_def pp sr c7 internal_error_def)
  have r9: "submit_answer test_lib test_services ?req (example_payload ''q9'') None example_db
      = (respond 400 (ErrorBody ''Question does not belong to this interview''), example_db)"
    by (simp add: e submit_answer_handler_def pp sr c9 f9)
  have r2: "status (fst (submit_answer test_lib test_services ?req (example_payload ''q2'') None
      example_db)) = 200"
    by (simp add: e submit_answer_handler_def pp sr c2 f2 respond_def Let_def)
  from au qs r7 r9 r2 show ?thesis by simp
qed

subsection \<open>Reads are scoped to the requester\<close>

lemma filter_own_sessions:
  "filter (\<lambda>r. s_user_id r = x \<and> s_id r = i) rows
     = filter (\<lambda>r. s_id r = i) (filter (\<lambda>r. s_user_id r = x) rows)"
  by (induction rows) auto

lemma filter_own_sessions':
  "filter (\<lambda>r. s_id r = i \<and> s_user_id r = x) rows
     = filter (\<lambda>r. s_id r = i) (filter (\<lambda>r. s_user_id r = x) rows)"
  by (induction rows) auto

lemma filter_own_resumes:
  "filter (\<lambda>r. r_user_id r = x \<and> r_id r = i) rows
     = filter (\<lambda>r. r_id r = i) (filter (\<lambda>r. r_user_id r = x) rows)"
  by (induction rows) auto

lemma set_order_by_desc: "set (order_by_desc k rows) = set rows"
  by (simp add: order_by_desc_def)

text \<open>
  The reads other than GET /api/interviews/:id. With \<open>u\<close> the user set by
  \<open>requireAuth\<close>: GET /api/interviews/:id/questions and /:id/answers answer 404 for a
  session id whose rows belong to another user, and so does GET /api/resumes/:id for a
  resume of another user; the rows of the two list endpoints all carry the requester's
  id; and the five responses are the same for any two databases whose session and resume
  rows of the requester are the same, whatever rows of other users they hold.
\<close>

lemma other_reads_scoped:
  "(user_id u \<noteq> v \<and> (\<forall>r\<in>set (interview_sessions d). s_id r = ident \<longrightarrow> s_user_id r = v) \<longrightarrow>
      interviews_questions sv u ident d = respond 404 (ErrorBody ''Interview session not found'')
      \<and> interviews_answers sv u ident d = respond 404 (ErrorBody ''Interview session not found''))
   \<and> (user_id u \<noteq> v \<and> (\<forall>r\<in>set (resumes d). r_id r = ident \<longrightarrow> r_user_id r = v) \<longrightarrow>
      resumes_get u ident d = respond 404 (ErrorBody ''Resume not found''))
   \<and> (\<exists>rows. interviews_list u d = respond 200 (SessionsBody rows)
        \<and> (\<forall>r\<in>set rows. s_user_id r = user_id u))
   \<and> (\<exists>rows. resumes_list u d = respond 200 (ResumesBody rows)
        \<and> (\<forall>r\<in>set rows. r_user_id r = user_id u))
   \<and> (filter (\<lambda>r. s_user_id r = user_id u) (interview_sessions d)
         = filter (\<lambda>r. s_user_id r = user_id u) (interview_sessions dd)
       \<and> filter (\<lambda>r. r_user_id r = user_id u) (resumes d)
         = filter (\<lambda>r. r_user_id r = user_id u) (resumes dd) \<longrightarrow>
      interviews_list u d = interviews_list u dd
      \<and> interviews_questions sv u ident d = interviews_questions sv u ident dd
      \<and> interviews_answers sv u ident d = interviews_answers sv u ident dd
      \<and> resumes_list u d = resumes_list u dd
      \<and> resumes_get u ident d = resumes_get u ident dd)"
proof (intro conjI impI)
  assume a: "user_id u \<noteq> v \<and> (\<forall>r\<in>set (interview_sessions d). s_id r = ident \<longrightarrow> s_user_id r = v)"
  then have e': "sessionCheck ident u d = []"
    by (auto simp: filter_empty_conv sessionCheck_def)
  show "interviews_questions sv u ident d = respond 404 (ErrorBody ''Interview session not found'')"
    by (simp add: interviews_questions_def e')
  show "interviews_answers sv u ident d = respond 404 (ErrorBody ''Interview session not found'')"
    by (simp add: interviews_answers_def e')
next
  assume "user_id u \<noteq> v \<and> (\<forall>r\<in>set (resumes d). r_id r = ident \<longrightarrow> r_user_id r = v)"
  then have "filter (\<lambda>r. r_user_id r = user_id u \<and> r_id r = ident) (resumes d) = []"
    by (auto simp: filter_empty_conv)
  then show "resumes_get u ident d = respond 404 (ErrorBody ''Resume not found'')"
    by (simp add: resumes_get_def)
next
  show "\<exists>rows. interviews_list u d = respond 200 (SessionsBody rows)
        \<and> (\<forall>r\<in>set rows. s_user_id r = user_id u)"
  proof (intro exI conjI ballI)
    show "interviews_list u d = respond 200 (SessionsBody
       (map session_public.truncate
         (take 50 (order_by_desc s_created_at
            (filter (\<lambda>r. s_user_id r = user_id u) (interview_sessions d))))))"
      by (simp add: interviews_list_def)
  next
    fix r
    assume "r \<in> set (map session_public.truncate
         (take 50 (order_by_desc s_created_at
            (filter (\<lambda>r. s_user_id r = user_id u) (interview_sessions d)))))"
    then obtain r' where "r = session_public.truncate r'"
      and "r' \<in> set (take 50 (order_by_desc s_created_at
            (filter (\<lambda>r. s_user_id r = user_id u) (interview_sessions d))))"
      by auto
    then show "s_user_id r = user_id u"
      by (auto simp: set_order_by_desc session_public.truncate_def dest!: in_set_takeD)
  qed
next
  show "\<exists>rows. resumes_list u d = respond 200 (ResumesBody rows)
        \<and> (\<forall>r\<in>set rows. r_user_id r = user_id u)"
    by (auto simp: resumes_list_def set_order_by_desc)
next
  assume a: "filter (\<lambda>r. s_user_id r = user_id u) (interview_sessions d)
         = filter (\<lambda>r. s_user_id r = user_id u) (interview_sessions dd)
       \<and> filter (\<lambda>r. r_user_id r = user_id u) (resumes d)
         = filter (\<lambda>r. r_user_id r = user_id u) (resumes dd)"
  show "interviews_list u d = interviews_list u dd"
    using a by (simp add: interviews_list_def)
  show "interviews_questions sv u ident d = interviews_questions sv u ident dd"
    using a by (simp add: interviews_questions_def sessionCheck_def filter_own_sessions' del: filter_filter)
  show "interviews_answers sv u ident d = interviews_answers sv u ident dd"
    using a by (simp add: interviews_answers_def sessionCheck_def filter_own_sessions' del: filter_filter)
  show "resumes_list u d = resumes_list u dd"
    using a by (simp add: resumes_list_def)
  show "resumes_get u ident d = resumes_get u ident dd"
    using a by (simp add: resumes_get_def filter_own_resumes del: filter_filter)
qed

text \<open>
  GET /api/interviews/:id answers 500 for every requester, id and database: its
  statement does not parse.
\<close>

lemma interviews_get_500:
  "interviews_get u ident d = respond 500 (ErrorBody ''Internal server error'')"
  by (simp add: interviews_get_def session_detail_query_def internal_error_def)

text \<open>
  C9 holds of five of its six reads and fails for GET /api/interviews/:id: session
  \<open>s1\<close> belongs to user \<open>u1\<close>, and the request of user \<open>u2\<close> for it is answered 500,
  not 404. So is the request of \<open>u1\<close>, the owner.
\<close>

theorem interviews_get_other_user:
  "map (\<lambda>r. (s_id r, s_user_id r)) (interview_sessions example_db) = [(''s1'', ''u1'')]
   \<and> status (interviews_get \<lparr>user_id = ''u2'', user_email = ''c@b.co''\<rparr> ''s1'' example_db) = 500
   \<and> interviews_get \<lparr>user_id = ''u2'', user_email = ''c@b.co''\<rparr> ''s1'' example_db
       \<noteq> respond 404 (ErrorBody ''Interview session not found'')
   \<and> status (interviews_get \<lparr>user_id = ''u1'', user_email = ''a@b.co''\<rparr> ''s1'' example_db) = 500"
  by (simp add: interviews_get_def session_detail_query_def internal_error_def respond_def
      example_db_def)

section \<open>Theorems: the voice loop\<close>

subsection \<open>The silence timer of the first class\<close>

lemma run_snoc: "run (es @ [e]) s = step e (run es s)"
  by (simp add: run_def)

lemma n_run_snoc: "n_run (es @ [e]) s = n_step e (n_run es s)"
  by (simp add: n_run_def)

lemma silence_inv_initial: "silence_inv (initial t0)"
  by (simp add: silence_inv_def initial_def)

lemma silence_inv_vadCallback: "silence_inv s \<Longrightarrow> silence_inv (vadCallback level s)"
  by (auto simp: silence_inv_def vadCallback_def Let_def notify_def clearSilenceTimer_def
      clearTimeout_def startSilenceTimer_def setTimeout_def SILENCE_DURATION_def
      split: option.splits if_splits)

lemma silence_inv_frame:
  assumes inv: "silence_inv s"
    and sub: "set (timers s') \<subseteq> set (timers s) \<union> {x. snd (snd x) \<noteq> SilenceTimeout}"
    and st: "silenceTimer s' = silenceTimer s"
    and us: "isUserSpeaking s' \<longrightarrow> isUserSpeaking s"
    and ls: "lastSpeechTick s' = lastSpeechTick s"
    and dn: "dateNow s \<le> dateNow s'"
  shows "silence_inv s'"
  unfolding silence_inv_def
proof (intro conjI ballI impI allI)
  fix x
  assume x: "x \<in> set (timers s')" "snd (snd x) = SilenceTimeout"
  with sub have xs: "x \<in> set (timers s)" by auto
  with inv x(2) have a: "silenceTimer s = Some (fst x)" "\<not> isUserSpeaking s"
    and b: "\<And>t. lastSpeechTick s = Some t \<Longrightarrow> t + SILENCE_DURATION \<le> fst (snd x)"
    unfolding silence_inv_def by blast+
  from a st show "silenceTimer s' = Some (fst x)" by simp
  from a us show "\<not> isUserSpeaking s'" by simp
  fix t assume "lastSpeechTick s' = Some t"
  with ls b show "t + SILENCE_DURATION \<le> fst (snd x)" by simp
next
  fix t assume "lastSpeechTick s' = Some t"
  with ls inv have "t \<le> dateNow s" unfolding silence_inv_def by simp
  with dn show "t \<le> dateNow s'" by simp
qed

lemma silence_inv_notify: "silence_inv s \<Longrightarrow> silence_inv (notify c s)"
  by (erule silence_inv_frame) (simp_all add: notify_def)

lemma silence_inv_setTimeout:
  "silence_inv s \<Longrightarrow> tk \<noteq> SilenceTimeout \<Longrightarrow> silence_inv (setTimeout tk delay s)"
  by (erule silence_inv_frame) (auto simp: setTimeout_def)

lemma silence_inv_speakText: "silence_inv s \<Longrightarrow> silence_inv (speakText txt k s)"
  by (erule silence_inv_frame) (simp_all add: speakText_def notify_def Let_def)

lemma silence_inv_askNextQuestion: "silence_inv s \<Longrightarrow> silence_inv (askNextQuestion rnd s)"
proof (cases "selectNextQuestion rnd s")
  case None
  assume "silence_inv s"
  then show ?thesis by (simp add: askNextQuestion_def None silence_inv_speakText)
next
  case (Some q)
  assume inv: "silence_inv s"
  have "silence_inv (notify (TranscriptUpdate (transcript s @
          [\<lparr>role = ai, m_text = iq_text q, timestamp = dateNow s\<rparr>]))
        (notify (QuestionAsked q)
          (s\<lparr>currentQuestion := Some q, askedQuestions := insert (iq_id q) (askedQuestions s)\<rparr>)
         \<lparr>transcript := transcript s @
          [\<lparr>role = ai, m_text = iq_text q, timestamp = dateNow s\<rparr>]\<rparr>))"
    by (rule silence_inv_frame [OF inv]) (simp_all add: notify_def)
  then show ?thesis
    by (simp add: askNextQuestion_def Some Let_def silence_inv_speakText notify_def)
qed

lemma silence_inv_processUserResponse:
  "silence_inv s \<Longrightarrow> silence_inv (processUserResponse r s)"
  by (erule silence_inv_frame)
    (auto simp: processUserResponse_def notify_def Let_def setTimeout_def)

lemma silence_inv_silenceCallback: "silence_inv s \<Longrightarrow> silence_inv (silenceCallback s)"
proof -
  assume inv: "silence_inv s"
  have "silence_inv ((processUserResponse (trim (userSpeechBuffer s)) s)\<lparr>userSpeechBuffer := []\<rparr>)"
    by (rule silence_inv_frame [OF silence_inv_processUserResponse [OF inv]]) auto
  with inv show ?thesis by (simp add: silenceCallback_def)
qed

lemma silence_inv_resolve: "silence_inv s \<Longrightarrow> silence_inv (resolve s)"
  by (erule silence_inv_frame)
    (auto simp: resolve_def setTimeout_def split: continuation.splits)

lemma silence_inv_synthesis_onend: "silence_inv s \<Longrightarrow> silence_inv (synthesis_onend s)"
  unfolding synthesis_onend_def
  by (rule silence_inv_resolve, erule silence_inv_frame)
    (auto simp: setTimeout_def notify_def)

lemma silence_inv_synthesis_onerror: "silence_inv s \<Longrightarrow> silence_inv (synthesis_onerror s)"
  unfolding synthesis_onerror_def
  by (rule silence_inv_resolve, erule silence_inv_frame) (auto simp: notify_def)

lemma silence_inv_recognition_onresult:
  "silence_inv s \<Longrightarrow> silence_inv (recognition_onresult rs s)"
  by (erule silence_inv_frame) (auto simp: recognition_onresult_def Let_def)

lemma silence_inv_recognition_onerror:
  "silence_inv s \<Longrightarrow> silence_inv (recognition_onerror err s)"
  by (erule silence_inv_frame) (auto simp: recognition_onerror_def setTimeout_def)

lemma silence_inv_recognition_onend:
  "silence_inv s \<Longrightarrow> silence_inv (recognition_onend s)"
  by (erule silence_inv_frame) (auto simp: recognition_onend_def setTimeout_def)

lemma silence_inv_start: "silence_inv s \<Longrightarrow> silence_inv (start s)"
proof -
  assume inv: "silence_inv s"
  let ?s1 = "startVoiceActivityDetection (s\<lparr>conversationActive := True\<rparr>)"
  let ?s3 = "?s1\<lparr>recognizing := True,
                 transcript := transcript ?s1 @
                   [\<lparr>role = ai, m_text = greeting, timestamp = dateNow ?s1\<rparr>]\<rparr>"
  have "silence_inv ?s3"
    by (rule silence_inv_frame [OF inv])
      (auto simp: startVoiceActivityDetection_def setTimeout_def)
  then have "silence_inv (speakText greeting AfterGreeting
      (notify (TranscriptUpdate (transcript ?s3)) ?s3))"
    by (intro silence_inv_speakText silence_inv_notify)
  with inv show ?thesis by (simp add: start_def Let_def)
qed

lemma silence_inv_stop: "silence_inv s \<Longrightarrow> silence_inv (stop s)"
  by (auto simp: silence_inv_def stop_def Let_def notify_def clearSilenceTimer_def
      clearTimeout_def stopVoiceActivityDetection_def split: option.splits)

lemma silence_inv_cleanup: "silence_inv s \<Longrightarrow> silence_inv (cleanup s)"
  unfolding cleanup_def by (drule silence_inv_stop, erule silence_inv_frame) auto

lemma silence_inv_initialize: "silence_inv s \<Longrightarrow> silence_inv (initialize outcome s)"
  by (erule silence_inv_frame) (auto simp: initialize_def notify_def split: init_outcome.splits)

lemma silence_inv_dequeue: "silence_inv s \<Longrightarrow> silence_inv (dequeue h tk s)"
proof (cases "tk = VadInterval")
  case False
  assume "silence_inv s"
  with False show ?thesis
    by (auto simp: silence_inv_def dequeue_def clearTimeout_def)
next
  case True
  assume inv: "silence_inv s"
  show ?thesis
    unfolding silence_inv_def
  proof (intro conjI ballI impI allI)
    fix x
    assume x: "x \<in> set (timers (dequeue h tk s))" "snd (snd x) = SilenceTimeout"
    from x(1) True obtain y where y: "y \<in> set (timers s)"
      and xy: "x = (fst y, (if fst y = h then fst (snd y) + VAD_PERIOD else fst (snd y)), snd (snd y))"
      by (auto simp: dequeue_def split: if_splits)
    from xy x(2) have "snd (snd y) = SilenceTimeout" by simp
    with inv y have a: "silenceTimer s = Some (fst y)" "\<not> isUserSpeaking s"
      and b: "\<And>t. lastSpeechTick s = Some t \<Longrightarrow> t + SILENCE_DURATION \<le> fst (snd y)"
      unfolding silence_inv_def by blast+
    from a xy True show "silenceTimer (dequeue h tk s) = Some (fst x)"
      by (simp add: dequeue_def)
    from a True show "\<not> isUserSpeaking (dequeue h tk s)"
      by (simp add: dequeue_def)
    fix t assume "lastSpeechTick (dequeue h tk s) = Some t"
    with True have "lastSpeechTick s = Some t" by (simp add: dequeue_def)
    from b [OF this] xy show "t + SILENCE_DURATION \<le> fst (snd x)"
      by (simp add: VAD_PERIOD_def)
  next
    fix t assume "lastSpeechTick (dequeue h tk s) = Some t"
    with True have "lastSpeechTick s = Some t" by (simp add: dequeue_def)
    with inv have "t \<le> dateNow s" unfolding silence_inv_def by simp
    with True show "t \<le> dateNow (dequeue h tk s)" by (simp add: dequeue_def)
  qed
qed

lemma silence_inv_recognizing: "silence_inv s \<Longrightarrow> silence_inv (s\<lparr>recognizing := b\<rparr>)"
  by (erule silence_inv_frame) auto

lemma silence_inv_runTask: "silence_inv s \<Longrightarrow> silence_inv (runTask tk level rnd s)"
  by (cases tk)
    (simp_all add: runTask_def silence_inv_vadCallback silence_inv_silenceCallback
      silence_inv_askNextQuestion silence_inv_recognizing)

lemma silence_inv_elapse: "silence_inv s \<Longrightarrow> silence_inv (s\<lparr>dateNow := dateNow s + int n\<rparr>)"
  by (erule silence_inv_frame) auto

lemma silence_inv_step: "silence_inv s \<Longrightarrow> silence_inv (step e s)"
proof (cases e)
  case (TimerFires h level rnd)
  assume "silence_inv s"
  then show ?thesis
    by (simp add: step_def TimerFires silence_inv_runTask silence_inv_dequeue
        split: option.splits prod.splits)
next
  case RecognitionEnd
  assume "silence_inv s"
  then show ?thesis
    by (simp add: step_def RecognitionEnd silence_inv_recognition_onend
        silence_inv_recognizing)
qed (simp_all add: step_def silence_inv_elapse silence_inv_recognition_onresult
    silence_inv_recognition_onerror silence_inv_synthesis_onend silence_inv_synthesis_onerror
    silence_inv_initialize silence_inv_start silence_inv_stop silence_inv_cleanup)

lemma silence_inv_run: "silence_inv (run es (initial t0))"
  by (induction es rule: rev_induct)
    (simp_all add: run_snoc silence_inv_step, simp add: run_def silence_inv_initial)

subsection \<open>What each handler leaves alone\<close>

lemma same_log_refl: "same_log s s"
  by (simp add: same_log_def)

lemma same_log_trans: "same_log s'' s' \<Longrightarrow> same_log s' s \<Longrightarrow> same_log s'' s"
  by (simp add: same_log_def)

lemma same_log_vadCallback: "same_log (vadCallback level s) s"
  by (simp add: same_log_def vadCallback_def Let_def notify_def clearSilenceTimer_def
      clearTimeout_def startSilenceTimer_def setTimeout_def askedLog_def userMessages_def
      split: option.splits)

lemma same_log_speakText: "same_log (speakText txt k s) s"
  by (simp add: same_log_def speakText_def Let_def notify_def askedLog_def userMessages_def)

lemma same_log_resolve: "same_log (resolve s) s"
  by (simp add: same_log_def resolve_def setTimeout_def askedLog_def userMessages_def
      split: continuation.splits)

lemma same_log_synthesis_onend: "same_log (synthesis_onend s) s"
  unfolding synthesis_onend_def
  by (rule same_log_trans [OF same_log_resolve])
    (simp add: same_log_def setTimeout_def notify_def askedLog_def userMessages_def)

lemma same_log_synthesis_onerror: "same_log (synthesis_onerror s) s"
  unfolding synthesis_onerror_def
  by (rule same_log_trans [OF same_log_resolve])
    (simp add: same_log_def notify_def askedLog_def userMessages_def)

lemma same_log_recognition_onresult: "same_log (recognition_onresult rs s) s"
  by (simp add: same_log_def recognition_onresult_def Let_def askedLog_def userMessages_def)

lemma same_log_recognition_onerror: "same_log (recognition_onerror err s) s"
  by (simp add: same_log_def recognition_onerror_def setTimeout_def askedLog_def
      userMessages_def)

lemma same_log_recognition_onend: "same_log (recognition_onend s) s"
  by (simp add: same_log_def recognition_onend_def setTimeout_def askedLog_def
      userMessages_def)

lemma same_log_start: "same_log (start s) s"
proof (cases "isInitialized s")
  case False
  then show ?thesis by (simp add: start_def same_log_refl)
next
  case True
  have "same_log (start s) (notify
          (TranscriptUpdate (transcript s @ [\<lparr>role = ai, m_text = greeting, timestamp = dateNow s\<rparr>]))
          (startVoiceActivityDetection (s\<lparr>conversationActive := True\<rparr>)
             \<lparr>recognizing := True,
              transcript := transcript s @ [\<lparr>role = ai, m_text = greeting, timestamp = dateNow s\<rparr>]\<rparr>))"
    using same_log_speakText
    by (simp add: start_def True Let_def startVoiceActivityDetection_def setTimeout_def)
  moreover have "same_log (notify
          (TranscriptUpdate (transcript s @ [\<lparr>role = ai, m_text = greeting, timestamp = dateNow s\<rparr>]))
          (startVoiceActivityDetection (s\<lparr>conversationActive := True\<rparr>)
             \<lparr>recognizing := True,
              transcript := transcript s @ [\<lparr>role = ai, m_text = greeting, timestamp = dateNow s\<rparr>]\<rparr>)) s"
    by (simp add: same_log_def notify_def startVoiceActivityDetection_def setTimeout_def
        askedLog_def userMessages_def)
  ultimately show ?thesis by (rule same_log_trans)
qed

lemma same_log_stop: "same_log (stop s) s"
  by (simp add: same_log_def stop_def Let_def notify_def clearSilenceTimer_def
      clearTimeout_def stopVoiceActivityDetection_def askedLog_def userMessages_def
      split: option.splits)

lemma same_log_cleanup: "same_log (cleanup s) s"
  using same_log_stop [of s]
  by (simp add: same_log_def cleanup_def askedLog_def userMessages_def)

lemma same_log_initialize: "same_log (initialize outcome s) s"
  by (simp add: same_log_def initialize_def notify_def askedLog_def userMessages_def
      split: init_outcome.splits)

lemma same_log_dequeue: "same_log (dequeue h tk s) s"
  by (simp add: same_log_def dequeue_def clearTimeout_def askedLog_def userMessages_def)

lemma askNextQuestion_None:
  "selectNextQuestion rnd s = None \<Longrightarrow> askNextQuestion rnd s = speakText closing AfterClosing s"
  by (simp add: askNextQuestion_def)

lemma askNextQuestion_Some:
  "selectNextQuestion rnd s = Some q \<Longrightarrow>
   askedQuestions (askNextQuestion rnd s) = insert (iq_id q) (askedQuestions s)
   \<and> askedLog (askNextQuestion rnd s) = askedLog s @ [q]
   \<and> userMessages (askNextQuestion rnd s) = userMessages s
   \<and> currentQuestion (askNextQuestion rnd s) = Some q
   \<and> utterances (askNextQuestion rnd s) = utterances s @ [iq_text q]
   \<and> transcript (askNextQuestion rnd s)
       = transcript s @ [\<lparr>role = ai, m_text = iq_text q, timestamp = dateNow s\<rparr>]"
  by (simp add: askNextQuestion_def Let_def speakText_def notify_def askedLog_def
      userMessages_def)

lemma userMessages_askNextQuestion: "userMessages (askNextQuestion rnd s) = userMessages s"
proof (cases "selectNextQuestion rnd s")
  case None
  with same_log_speakText [of closing AfterClosing s] show ?thesis
    by (simp add: askNextQuestion_None same_log_def)
next
  case (Some q)
  then show ?thesis by (simp add: askNextQuestion_Some)
qed

lemma selectNextQuestion_Some:
  assumes "selectNextQuestion rnd s = Some q"
  shows "q \<in> set questionPool \<and> iq_id q \<notin> askedQuestions s"
proof -
  define av where "av = filter (\<lambda>q. iq_id q \<notin> askedQuestions s) questionPool"
  define target where "target =
     (if card (askedQuestions s) < 3 then easy
      else if card (askedQuestions s) < 6 then medium else hard)"
  define c1 where "c1 = filter (\<lambda>q. iq_difficulty q = target) av"
  define c2 where "c2 = (if c1 = [] then av else c1)"
  define c3 where "c3 =
     (case currentQuestion s of
        None \<Rightarrow> c2
      | Some cq \<Rightarrow>
          (let differentCategory = filter (\<lambda>q. iq_category q \<noteq> iq_category cq) c2
           in if differentCategory \<noteq> [] then differentCategory else c2))"
  define ix where "ix = \<lfloor>rnd * real (length c3)\<rfloor>"
  have sel: "selectNextQuestion rnd s =
     (if av = [] then None
      else if 0 \<le> ix \<and> ix < int (length c3) then Some (c3 ! nat ix) else None)"
    unfolding selectNextQuestion_def av_def target_def c1_def c2_def c3_def ix_def Let_def
    by (rule refl)
  have "set c2 \<subseteq> set av" by (auto simp: c2_def c1_def)
  then have sub: "set c3 \<subseteq> set av"
    by (auto simp: c3_def Let_def split: option.splits)
  from assms sel have "0 \<le> ix" "ix < int (length c3)" "q = c3 ! nat ix"
    by (auto split: if_splits)
  then have "q \<in> set c3" by (simp add: nat_less_iff)
  with sub have "q \<in> set av" by blast
  then show ?thesis by (simp add: av_def)
qed

lemma selectNextQuestion_None:
  "\<forall>q\<in>set questionPool. iq_id q \<in> askedQuestions s \<Longrightarrow> selectNextQuestion rnd s = None"
  by (simp add: selectNextQuestion_def filter_empty_conv)

lemma find_timer:
  "find (\<lambda>(i, due, tk). i = h) ts = Some (i, due, tk) \<Longrightarrow> i = h \<and> (h, due, tk) \<in> set ts"
  by (auto simp: find_Some_iff in_set_conv_nth)

lemma log_processUserResponse:
  "askedLog (processUserResponse r s) = askedLog s
   \<and> askedQuestions (processUserResponse r s) = askedQuestions s"
  by (simp add: processUserResponse_def Let_def notify_def setTimeout_def askedLog_def)

lemma log_silenceCallback:
  "askedLog (silenceCallback s) = askedLog s
   \<and> askedQuestions (silenceCallback s) = askedQuestions s"
  using log_processUserResponse [of "trim (userSpeechBuffer s)" s]
  by (simp add: silenceCallback_def askedLog_def)

lemma asked_inv_log:
  "asked_inv s \<Longrightarrow> askedLog s' = askedLog s \<Longrightarrow> askedQuestions s' = askedQuestions s
     \<Longrightarrow> asked_inv s'"
  by (simp add: asked_inv_def)

lemma asked_inv_same: "asked_inv s \<Longrightarrow> same_log s' s \<Longrightarrow> asked_inv s'"
  by (simp add: asked_inv_def same_log_def)

lemma asked_inv_askNextQuestion: "asked_inv s \<Longrightarrow> asked_inv (askNextQuestion rnd s)"
proof (cases "selectNextQuestion rnd s")
  case None
  assume "asked_inv s"
  then show ?thesis
    by (simp add: askNextQuestion_None [OF None] asked_inv_same [OF _ same_log_speakText])
next
  case (Some q)
  assume inv: "asked_inv s"
  from selectNextQuestion_Some [OF Some] have "iq_id q \<notin> askedQuestions s" by simp
  with inv askNextQuestion_Some [OF Some] show ?thesis
    by (auto simp: asked_inv_def)
qed

lemma asked_inv_recognizing: "asked_inv s \<Longrightarrow> asked_inv (s\<lparr>recognizing := b\<rparr>)"
  by (simp add: asked_inv_def askedLog_def)

lemma asked_inv_runTask: "asked_inv s \<Longrightarrow> asked_inv (runTask tk level rnd s)"
  by (cases tk)
    (simp_all add: runTask_def asked_inv_askNextQuestion asked_inv_recognizing
      asked_inv_same [OF _ same_log_vadCallback]
      asked_inv_log [OF _ log_silenceCallback [THEN conjunct1] log_silenceCallback [THEN conjunct2]])

lemma asked_inv_step: "asked_inv s \<Longrightarrow> asked_inv (step e s)"
proof (cases e)
  case (Elapse n)
  assume "asked_inv s"
  then show ?thesis by (simp add: step_def Elapse asked_inv_def askedLog_def)
next
  case (TimerFires h level rnd)
  assume "asked_inv s"
  then show ?thesis
    by (simp add: step_def TimerFires asked_inv_runTask asked_inv_same [OF _ same_log_dequeue]
        split: option.splits prod.splits)
next
  case RecognitionEnd
  assume "asked_inv s"
  then show ?thesis
    by (simp add: step_def RecognitionEnd
        asked_inv_same [OF asked_inv_recognizing same_log_recognition_onend])
qed (simp_all add: step_def asked_inv_same [OF _ same_log_recognition_onresult]
    asked_inv_same [OF _ same_log_recognition_onerror]
    asked_inv_same [OF _ same_log_synthesis_onend]
    asked_inv_same [OF _ same_log_synthesis_onerror]
    asked_inv_same [OF _ same_log_initialize]
    asked_inv_same [OF _ same_log_start]
    asked_inv_same [OF _ same_log_stop]
    asked_inv_same [OF _ same_log_cleanup])

lemma asked_inv_run: "asked_inv (run es (initial t0))"
proof (induction es rule: rev_induct)
  case Nil
  show ?case by (simp add: run_def asked_inv_def askedLog_def initial_def)
next
  case (snoc e es)
  then show ?case by (simp add: run_snoc asked_inv_step)
qed

lemma userMessages_runTask:
  "userMessages (runTask tk level rnd s) \<noteq> userMessages s \<Longrightarrow> tk = SilenceTimeout"
proof (cases tk)
  case VadInterval
  assume "userMessages (runTask tk level rnd s) \<noteq> userMessages s"
  with VadInterval same_log_vadCallback [of level s] show ?thesis
    by (simp add: runTask_def same_log_def)
next
  case ErrorRestart
  assume "userMessages (runTask tk level rnd s) \<noteq> userMessages s"
  with ErrorRestart show ?thesis
    by (simp add: runTask_def userMessages_def split: if_splits)
next
  case EndRestart
  assume "userMessages (runTask tk level rnd s) \<noteq> userMessages s"
  with EndRestart show ?thesis by (simp add: runTask_def userMessages_def)
next
  case SpeechEndRestart
  assume "userMessages (runTask tk level rnd s) \<noteq> userMessages s"
  with SpeechEndRestart show ?thesis
    by (simp add: runTask_def userMessages_def split: if_splits)
next
  case (RespondDelay r)
  assume "userMessages (runTask tk level rnd s) \<noteq> userMessages s"
  with RespondDelay show ?thesis by (simp add: runTask_def userMessages_askNextQuestion)
next
  case FirstQuestionDelay
  assume "userMessages (runTask tk level rnd s) \<noteq> userMessages s"
  with FirstQuestionDelay show ?thesis by (simp add: runTask_def userMessages_askNextQuestion)
qed simp

lemma userMessages_step:
  assumes "userMessages (step e s) \<noteq> userMessages s"
  shows "\<exists>h level rnd due. e = TimerFires h level rnd
           \<and> (h, due, SilenceTimeout) \<in> set (timers s) \<and> due \<le> dateNow s"
proof (cases e)
  case (TimerFires h level rnd)
  show ?thesis
  proof (cases "find (\<lambda>(i, due, tk). i = h) (timers s)")
    case None
    with assms TimerFires show ?thesis by (simp add: step_def)
  next
    case (Some x)
    obtain i due tk where x: "x = (i, due, tk)" by (cases x)
    from find_timer [OF Some [unfolded x]] have m: "(h, due, tk) \<in> set (timers s)" by simp
    from assms TimerFires Some x have d: "due \<le> dateNow s"
      and u: "userMessages (runTask tk level rnd (dequeue h tk s)) \<noteq> userMessages s"
      by (auto simp: step_def split: if_splits)
    from same_log_dequeue [of h tk s] have "userMessages (dequeue h tk s) = userMessages s"
      by (simp add: same_log_def)
    with u userMessages_runTask [of tk level rnd "dequeue h tk s"] have "tk = SilenceTimeout"
      by simp
    with m d TimerFires show ?thesis by blast
  qed
next
  case (Elapse n)
  with assms show ?thesis by (simp add: step_def userMessages_def)
next
  case (RecognitionResult rs)
  with assms same_log_recognition_onresult [of rs s] show ?thesis
    by (simp add: step_def same_log_def split: if_splits)
next
  case (RecognitionError err)
  with assms same_log_recognition_onerror [of err s] show ?thesis
    by (simp add: step_def same_log_def split: if_splits)
next
  case RecognitionEnd
  with assms same_log_recognition_onend [of "s\<lparr>recognizing := False\<rparr>"] show ?thesis
    by (simp add: step_def same_log_def userMessages_def split: if_splits)
next
  case SynthesisEnd
  with assms same_log_synthesis_onend [of s] show ?thesis
    by (simp add: step_def same_log_def split: if_splits)
next
  case SynthesisError
  with assms same_log_synthesis_onerror [of s] show ?thesis
    by (simp add: step_def same_log_def split: if_splits)
next
  case (Initialize outcome)
  with assms same_log_initialize [of outcome s] show ?thesis
    by (simp add: step_def same_log_def)
next
  case Start
  with assms same_log_start [of s] show ?thesis by (simp add: step_def same_log_def)
next
  case Stop
  with assms same_log_stop [of s] show ?thesis by (simp add: step_def same_log_def)
next
  case Cleanup
  with assms same_log_cleanup [of s] show ?thesis by (simp add: step_def same_log_def)
qed

lemma silence_before_response_realtime:
  assumes "userMessages (step e (run es (initial t0))) \<noteq> userMessages (run es (initial t0))"
  shows "(\<exists>h level rnd due. e = TimerFires h level rnd
            \<and> (h, due, SilenceTimeout) \<in> set (timers (run es (initial t0)))
            \<and> due \<le> dateNow (run es (initial t0)))
         \<and> \<not> isUserSpeaking (run es (initial t0))
         \<and> (\<forall>t. lastSpeechTick (run es (initial t0)) = Some t
                \<longrightarrow> t + SILENCE_DURATION \<le> dateNow (run es (initial t0)))"
proof -
  let ?s = "run es (initial t0)"
  from userMessages_step [OF assms] obtain h level rnd due where
    e: "e = TimerFires h level rnd" and m: "(h, due, SilenceTimeout) \<in> set (timers ?s)"
    and d: "due \<le> dateNow ?s" by blast
  from silence_inv_run [of es] m have u: "\<not> isUserSpeaking ?s"
    and t: "\<And>t. lastSpeechTick ?s = Some t \<Longrightarrow> t + SILENCE_DURATION \<le> due"
    unfolding silence_inv_def by force+
  from t d have "\<forall>t. lastSpeechTick ?s = Some t \<longrightarrow> t + SILENCE_DURATION \<le> dateNow ?s"
    by fastforce
  with e m d u show ?thesis by blast
qed

subsection \<open>The silence timer of the second class\<close>

lemma n_userMessages_vadCallback: "userMessages (n_vadCallback level s) = userMessages s"
  by (simp add: n_vadCallback_def Let_def notify_def checkSilenceTimeout_def
      clearSilenceTimer_def clearTimeout_def setTimeout_def userMessages_def
      split: option.splits)

lemma sound_inv_vadCallback: "sound_inv s \<Longrightarrow> sound_inv (n_vadCallback level s)"
  by (simp add: sound_inv_def n_vadCallback_def Let_def notify_def checkSilenceTimeout_def
      clearSilenceTimer_def clearTimeout_def setTimeout_def split: option.splits)

lemma sound_inv_frame:
  "sound_inv s \<Longrightarrow> lastSpeechTick s' = lastSpeechTick s
     \<Longrightarrow> lastSoundDetected s' = lastSoundDetected s \<Longrightarrow> sound_inv s'"
  by (simp add: sound_inv_def)

lemma sound_inv_silenceCallback: "sound_inv s \<Longrightarrow> sound_inv (n_silenceCallback s)"
  by (erule sound_inv_frame)
    (simp_all add: n_silenceCallback_def n_processUserResponse_def Let_def notify_def)

lemma sound_inv_runTask: "sound_inv s \<Longrightarrow> sound_inv (n_runTask tk level s)"
  by (cases tk)
    (simp_all add: n_runTask_def sound_inv_vadCallback sound_inv_silenceCallback,
      simp_all add: sound_inv_def)

lemma sound_inv_dequeue: "sound_inv s \<Longrightarrow> sound_inv (dequeue h tk s)"
  by (erule sound_inv_frame) (simp_all add: dequeue_def clearTimeout_def)

lemma sound_inv_stop: "sound_inv s \<Longrightarrow> sound_inv (stop s)"
  by (erule sound_inv_frame)
    (simp_all add: stop_def Let_def notify_def clearSilenceTimer_def clearTimeout_def
      stopVoiceActivityDetection_def split: option.splits)

lemma sound_inv_step: "sound_inv s \<Longrightarrow> sound_inv (n_step e s)"
proof (cases e)
  case (NTimerFires h level)
  assume "sound_inv s"
  then show ?thesis
    by (simp add: n_step_def NTimerFires sound_inv_runTask sound_inv_dequeue
        split: option.splits prod.splits)
next
  case NStop
  assume "sound_inv s"
  then show ?thesis by (simp add: n_step_def NStop sound_inv_stop)
next
  case NCleanup
  assume "sound_inv s"
  then have "sound_inv (stop s)" by (rule sound_inv_stop)
  then show ?thesis by (simp add: n_step_def NCleanup cleanup_def sound_inv_def)
qed (simp_all add: n_step_def sound_inv_def n_recognition_onresult_def
    n_recognition_onerror_def n_recognition_onend_def n_speakText_def utterance_onend_def
    utterance_onerror_def initialize_def n_start_def startVoiceActivityDetection_def
    setTimeout_def notify_def Let_def split: init_outcome.splits)

lemma sound_inv_run: "sound_inv (n_run es (n_initial t0))"
proof (induction es rule: rev_induct)
  case Nil
  show ?case by (simp add: n_run_def sound_inv_def n_initial_def)
next
  case (snoc e es)
  then show ?case by (simp add: n_run_snoc sound_inv_step)
qed

lemma n_userMessages_silenceCallback:
  "userMessages (n_silenceCallback s) \<noteq> userMessages s \<Longrightarrow>
     N_SILENCE_DURATION \<le> dateNow s - lastSoundDetected s"
  by (simp add: n_silenceCallback_def Let_def split: if_splits)

lemma n_userMessages_runTask:
  "userMessages (n_runTask tk level s) \<noteq> userMessages s \<Longrightarrow>
     tk = SilenceTimeout \<and> N_SILENCE_DURATION \<le> dateNow s - lastSoundDetected s"
  by (cases tk)
    (simp_all add: n_runTask_def n_userMessages_vadCallback n_userMessages_silenceCallback,
      simp_all add: userMessages_def split: if_splits)

lemma n_userMessages_step:
  assumes "userMessages (n_step e s) \<noteq> userMessages s"
  shows "\<exists>h level due. e = NTimerFires h level
           \<and> (h, due, SilenceTimeout) \<in> set (timers s) \<and> due \<le> dateNow s
           \<and> N_SILENCE_DURATION \<le> dateNow s - lastSoundDetected s"
proof (cases e)
  case (NTimerFires h level)
  show ?thesis
  proof (cases "find (\<lambda>(i, due, tk). i = h) (timers s)")
    case None
    with assms NTimerFires show ?thesis by (simp add: n_step_def)
  next
    case (Some x)
    obtain i due tk where x: "x = (i, due, tk)" by (cases x)
    from find_timer [OF Some [unfolded x]] have m: "(h, due, tk) \<in> set (timers s)" by simp
    from assms NTimerFires Some x have d: "due \<le> dateNow s"
      and u: "userMessages (n_runTask tk level (dequeue h tk s)) \<noteq> userMessages s"
      by (auto simp: n_step_def split: if_splits)
    have q: "userMessages (dequeue h tk s) = userMessages s"
      "dateNow (dequeue h tk s) = dateNow s"
      "lastSoundDetected (dequeue h tk s) = lastSoundDetected s"
      by (simp_all add: dequeue_def clearTimeout_def userMessages_def)
    with u n_userMessages_runTask [of tk level "dequeue h tk s"]
    have "tk = SilenceTimeout" "N_SILENCE_DURATION \<le> dateNow s - lastSoundDetected s"
      by simp_all
    with m d NTimerFires show ?thesis by blast
  qed
next
  case NStop
  with assms show ?thesis
    by (simp add: n_step_def stop_def Let_def notify_def clearSilenceTimer_def
        clearTimeout_def stopVoiceActivityDetection_def userMessages_def split: option.splits)
next
  case NCleanup
  with assms show ?thesis
    by (simp add: n_step_def cleanup_def stop_def Let_def notify_def clearSilenceTimer_def
        clearTimeout_def stopVoiceActivityDetection_def userMessages_def split: option.splits)
qed (use assms in \<open>simp_all add: n_step_def userMessages_def n_recognition_onresult_def
    n_recognition_onerror_def n_recognition_onend_def n_speakText_def utterance_onend_def
    utterance_onerror_def initialize_def n_start_def startVoiceActivityDetection_def
    setTimeout_def notify_def Let_def split: init_outcome.splits if_splits\<close>)

lemma silence_before_response_natural:
  assumes "userMessages (n_step e (n_run es (n_initial t0))) \<noteq> userMessages (n_run es (n_initial t0))"
  shows "(\<exists>h level due. e = NTimerFires h level
            \<and> (h, due, SilenceTimeout) \<in> set (timers (n_run es (n_initial t0)))
            \<and> due \<le> dateNow (n_run es (n_initial t0)))
         \<and> (\<forall>t. lastSpeechTick (n_run es (n_initial t0)) = Some t
                \<longrightarrow> t + N_SILENCE_DURATION \<le> dateNow (n_run es (n_initial t0)))"
proof -
  let ?s = "n_run es (n_initial t0)"
  from n_userMessages_step [OF assms] obtain h level due where
    e: "e = NTimerFires h level" and m: "(h, due, SilenceTimeout) \<in> set (timers ?s)"
    and d: "due \<le> dateNow ?s" and l: "N_SILENCE_DURATION \<le> dateNow ?s - lastSoundDetected ?s"
    by blast
  from sound_inv_run [of es] l
  have "\<forall>t. lastSpeechTick ?s = Some t \<longrightarrow> t + N_SILENCE_DURATION \<le> dateNow ?s"
    unfolding sound_inv_def by fastforce
  with e m d show ?thesis by blast
qed

subsection \<open>Detection and silence\<close>

lemma vadCallback_classifies:
  "\<not> isAISpeaking s \<Longrightarrow>
     isUserSpeaking (vadCallback level s) = (getAudioLevel level s > SPEECH_THRESHOLD)
     \<and> (getAudioLevel level s > SPEECH_THRESHOLD
          \<longrightarrow> lastSpeechTick (vadCallback level s) = Some (dateNow s))"
  by (simp add: vadCallback_def Let_def notify_def clearSilenceTimer_def clearTimeout_def
      startSilenceTimer_def setTimeout_def split: option.splits)

lemma n_vadCallback_classifies:
  "\<not> isAISpeaking s \<Longrightarrow>
     isUserSpeaking (n_vadCallback level s) = (getAudioLevel level s > N_SPEECH_THRESHOLD)
     \<and> (getAudioLevel level s > N_SPEECH_THRESHOLD
          \<longrightarrow> lastSpeechTick (n_vadCallback level s) = Some (dateNow s))"
  by (simp add: n_vadCallback_def Let_def notify_def clearSilenceTimer_def clearTimeout_def
      checkSilenceTimeout_def setTimeout_def split: option.splits)

lemma dequeue_interval:
  "(h, due, VadInterval) \<in> set (timers v)
     \<Longrightarrow> (h, due + 100, VadInterval) \<in> set (timers (dequeue h VadInterval v))"
  by (force simp: dequeue_def VAD_PERIOD_def)

text \<open>
  C1: in both classes the detection is an interval of 100 ms (it is installed due 100 ms
  later and is due again 100 ms after each tick); on a tick taken while the AI is not
  speaking the user is classified as speaking exactly when the level in dB exceeds the
  constant \<open>SPEECH_THRESHOLD\<close> (-45 in the first class, -42 in the second); and in every
  run from the initial state, a step that hands a user response to
  \<open>processUserResponse\<close> (the transcript gets a user message) is the firing of a
  silence timer, and the latest tick that classified the user as speaking is then at least
  \<open>SILENCE_DURATION\<close> = 1500 ms old.
\<close>

theorem voice_activity_detection:
  "VAD_PERIOD = 100 \<and> SPEECH_THRESHOLD = - 45 \<and> N_SPEECH_THRESHOLD = - 42
   \<and> SILENCE_DURATION = 1500 \<and> N_SILENCE_DURATION = 1500
   \<and> timers (startVoiceActivityDetection v)
       = timers v @ [(nextTimerId v, dateNow v + 100, VadInterval)]
   \<and> ((h, due, VadInterval) \<in> set (timers v)
        \<longrightarrow> (h, due + 100, VadInterval) \<in> set (timers (dequeue h VadInterval v)))
   \<and> (\<not> isAISpeaking s \<longrightarrow>
         isUserSpeaking (vadCallback level s) = (getAudioLevel level s > SPEECH_THRESHOLD)
         \<and> (getAudioLevel level s > SPEECH_THRESHOLD
              \<longrightarrow> lastSpeechTick (vadCallback level s) = Some (dateNow s)))
   \<and> (\<not> isAISpeaking n \<longrightarrow>
         isUserSpeaking (n_vadCallback level n) = (getAudioLevel level n > N_SPEECH_THRESHOLD)
         \<and> (getAudioLevel level n > N_SPEECH_THRESHOLD
              \<longrightarrow> lastSpeechTick (n_vadCallback level n) = Some (dateNow n)))
   \<and> (userMessages (step e (run es (initial t0))) \<noteq> userMessages (run es (initial t0)) \<longrightarrow>
         (\<exists>h level rnd due. e = TimerFires h level rnd
            \<and> (h, due, SilenceTimeout) \<in> set (timers (run es (initial t0)))
            \<and> due \<le> dateNow (run es (initial t0)))
         \<and> \<not> isUserSpeaking (run es (initial t0))
         \<and> (\<forall>t. lastSpeechTick (run es (initial t0)) = Some t
                \<longrightarrow> t + SILENCE_DURATION \<le> dateNow (run es (initial t0))))
   \<and> (userMessages (n_step ne (n_run nes (n_initial t0))) \<noteq> userMessages (n_run nes (n_initial t0)) \<longrightarrow>
         (\<exists>h level due. ne = NTimerFires h level
            \<and> (h, due, SilenceTimeout) \<in> set (timers (n_run nes (n_initial t0)))
            \<and> due \<le> dateNow (n_run nes (n_initial t0)))
         \<and> (\<forall>t. lastSpeechTick (n_run nes (n_initial t0)) = Some t
                \<longrightarrow> t + N_SILENCE_DURATION \<le> dateNow (n_run nes (n_initial t0))))"
proof -
  have a: "timers (startVoiceActivityDetection v)
       = timers v @ [(nextTimerId v, dateNow v + 100, VadInterval)]"
    by (simp add: startVoiceActivityDetection_def setTimeout_def VAD_PERIOD_def)
  show ?thesis
    using a dequeue_interval [of h due v] vadCallback_classifies [of s level]
      n_vadCallback_classifies [of n level] silence_before_response_realtime [of e es]
      silence_before_response_natural [of ne nes]
    by (simp add: VAD_PERIOD_def SPEECH_THRESHOLD_def N_SPEECH_THRESHOLD_def
        SILENCE_DURATION_def N_SILENCE_DURATION_def)
qed

theorem voice_activity_detection_witness:
  "isUserSpeaking (vadCallback (- 30) ((initial 0)\<lparr>analyser := True\<rparr>))
   \<and> \<not> isUserSpeaking (vadCallback (- 45) ((initial 0)\<lparr>analyser := True\<rparr>))
   \<and> isUserSpeaking (n_vadCallback (- 30) ((n_initial 0)\<lparr>analyser := True\<rparr>))
   \<and> \<not> isUserSpeaking (n_vadCallback (- 42) ((n_initial 0)\<lparr>analyser := True\<rparr>))
   \<and> userMessages (step (TimerFires 5 0 0) (run realtime_answer_trace (initial 0)))
       \<noteq> userMessages (run realtime_answer_trace (initial 0))
   \<and> lastSpeechTick (run realtime_answer_trace (initial 0)) = Some 9100
   \<and> 9100 + SILENCE_DURATION \<le> dateNow (run realtime_answer_trace (initial 0))
   \<and> userMessages (n_step (NTimerFires 3 0) (n_run natural_answer_trace (n_initial 0)))
       \<noteq> userMessages (n_run natural_answer_trace (n_initial 0))
   \<and> lastSpeechTick (n_run natural_answer_trace (n_initial 0)) = Some 3700
   \<and> 3700 + N_SILENCE_DURATION \<le> dateNow (n_run natural_answer_trace (n_initial 0))
   \<and> (1, 200, VadInterval)
       \<in> set (timers (dequeue 1 VadInterval (startVoiceActivityDetection (initial 0))))"
proof -
  let ?s = "(initial 0)\<lparr>analyser := True\<rparr>"
  let ?n = "(n_initial 0)\<lparr>analyser := True\<rparr>"
  let ?R = "run realtime_answer_trace (initial 0)"
  let ?N = "n_run natural_answer_trace (n_initial 0)"
  note T = voice_activity_detection
  have q: "\<not> isAISpeaking ?s" "\<not> isAISpeaking ?n"
    by (simp_all add: initial_def n_initial_def)
  have g1: "getAudioLevel (- 30) ?s > SPEECH_THRESHOLD"
    "\<not> getAudioLevel (- 45) ?s > SPEECH_THRESHOLD"
    "getAudioLevel (- 30) ?n > N_SPEECH_THRESHOLD"
    "\<not> getAudioLevel (- 42) ?n > N_SPEECH_THRESHOLD"
    by (simp_all add: getAudioLevel_def SPEECH_THRESHOLD_def N_SPEECH_THRESHOLD_def)
  have c1: "isUserSpeaking (vadCallback (- 30) ?s)"
    using T [where s = ?s and level = "- 30"] q g1 by blast
  have c2: "\<not> isUserSpeaking (vadCallback (- 45) ?s)"
    using T [where s = ?s and level = "- 45"] q g1 by blast
  have c3: "isUserSpeaking (n_vadCallback (- 30) ?n)"
    using T [where n = ?n and level = "- 30"] q g1 by blast
  have c4: "\<not> isUserSpeaking (n_vadCallback (- 42) ?n)"
    using T [where n = ?n and level = "- 42"] q g1 by blast
  have r1: "userMessages (step (TimerFires 5 0 0) ?R) \<noteq> userMessages ?R"
    by code_simp
  have r2: "lastSpeechTick ?R = Some 9100"
    by code_simp
  have r3: "9100 + SILENCE_DURATION \<le> dateNow ?R"
    using T [where e = "TimerFires 5 0 0" and es = realtime_answer_trace and ?t0.0 = 0] r1 r2 by blast
  have n1: "userMessages (n_step (NTimerFires 3 0) ?N) \<noteq> userMessages ?N"
    by code_simp
  have n2: "lastSpeechTick ?N = Some 3700"
    by code_simp
  have n3: "3700 + N_SILENCE_DURATION \<le> dateNow ?N"
    using T [where ne = "NTimerFires 3 0" and nes = natural_answer_trace] n1 n2 by blast
  have v0: "(1, 100, VadInterval) \<in> set (timers (startVoiceActivityDetection (initial 0)))"
    using T [where v = "initial 0"] by (simp add: initial_def)
  have v1: "(1, 200, VadInterval)
       \<in> set (timers (dequeue 1 VadInterval (startVoiceActivityDetection (initial 0))))"
    using T [where v = "startVoiceActivityDetection (initial 0)" and h = 1 and due = 100] v0
    by simp
  from c1 c2 c3 c4 r1 r2 r3 n1 n2 n3 v1 show ?thesis by blast
qed

subsection \<open>The two speaking flags\<close>

text \<open>
  C2, as stated, fails: \<open>speakText\<close> sets \<open>isAISpeaking\<close> and leaves
  \<open>isUserSpeaking\<close> as it is. When the user is heard in the second between the
  greeting and the first question, both flags are true once the question is spoken.
\<close>

theorem both_speaking_counterexample:
  "isAISpeaking (run overlap_trace (initial 0)) \<and> isUserSpeaking (run overlap_trace (initial 0))"
  by code_simp

lemma vadCallback_while_ai:
  "isAISpeaking s \<Longrightarrow>
     vadCallback level s
       = (if isUserSpeaking s
          then s\<lparr>isUserSpeaking := False, callbacks := callbacks s @ [UserSpeakingChange False]\<rparr>
          else s)"
  by (simp add: vadCallback_def notify_def)

lemma vadCallback_isAISpeaking: "isAISpeaking (vadCallback level s) = isAISpeaking s"
  by (simp add: vadCallback_def Let_def notify_def clearSilenceTimer_def clearTimeout_def
      startSilenceTimer_def setTimeout_def split: option.splits)

text \<open>
  C2, amended: a tick of the detection taken while \<open>isAISpeaking\<close> leaves
  \<open>isUserSpeaking\<close> false and does not compare the level (its result is the same for
  every level, it reports no start of user speech, starts no timer and records no speech);
  \<open>speakText\<close> stops the recogniser when it starts the playback; and in the state a
  tick leaves, \<open>isAISpeaking\<close> and \<open>isUserSpeaking\<close> are never both true. (They can
  both be true from a \<open>speakText\<close> call to the next tick.)
\<close>

theorem ai_speaking_tick:
  "(isAISpeaking s \<longrightarrow>
       \<not> isUserSpeaking (vadCallback level s)
       \<and> vadCallback level s = vadCallback level' s
       \<and> UserSpeakingChange True \<notin> set (drop (length (callbacks s)) (callbacks (vadCallback level s)))
       \<and> timers (vadCallback level s) = timers s
       \<and> lastSpeechTick (vadCallback level s) = lastSpeechTick s)
   \<and> \<not> (isAISpeaking (vadCallback level s) \<and> isUserSpeaking (vadCallback level s))
   \<and> isAISpeaking (speakText txt k s) \<and> \<not> recognizing (speakText txt k s)"
proof (intro conjI impI)
  assume a: "isAISpeaking s"
  show "\<not> isUserSpeaking (vadCallback level s)"
    by (simp add: vadCallback_while_ai [OF a])
  show "vadCallback level s = vadCallback level' s"
    by (simp add: vadCallback_while_ai [OF a])
  show "UserSpeakingChange True \<notin> set (drop (length (callbacks s)) (callbacks (vadCallback level s)))"
    by (simp add: vadCallback_while_ai [OF a])
  show "timers (vadCallback level s) = timers s"
    by (simp add: vadCallback_while_ai [OF a])
  show "lastSpeechTick (vadCallback level s) = lastSpeechTick s"
    by (simp add: vadCallback_while_ai [OF a])
next
  show "\<not> (isAISpeaking (vadCallback level s) \<and> isUserSpeaking (vadCallback level s))"
  proof (cases "isAISpeaking s")
    case True
    then show ?thesis by (simp add: vadCallback_while_ai)
  next
    case False
    then show ?thesis by (simp add: vadCallback_isAISpeaking)
  qed
next
  show "isAISpeaking (speakText txt k s)" by (simp add: speakText_def Let_def notify_def)
  show "\<not> recognizing (speakText txt k s)" by (simp add: speakText_def Let_def notify_def)
qed

theorem ai_speaking_tick_witness:
  "isAISpeaking (run overlap_trace (initial 0)) \<and> isUserSpeaking (run overlap_trace (initial 0))
   \<and> \<not> isUserSpeaking (vadCallback (- 30) (run overlap_trace (initial 0)))
   \<and> isAISpeaking (vadCallback (- 30) (run overlap_trace (initial 0)))"
proof -
  let ?S = "run overlap_trace (initial 0)"
  have a: "isAISpeaking ?S" "isUserSpeaking ?S" by code_simp+
  from ai_speaking_tick [of ?S "- 30" "- 30" "''''" NoContinuation] a
  have "\<not> isUserSpeaking (vadCallback (- 30) ?S)" by blast
  moreover have "isAISpeaking (vadCallback (- 30) ?S)"
    using a by (simp add: vadCallback_isAISpeaking)
  ultimately show ?thesis using a by blast
qed

text \<open>
  In the first class the recogniser can run during the playback: the restart that
  \<open>onerror\<close> schedules for "no-speech" does not look at \<open>isAISpeaking\<close> when its
  delay is over.
\<close>

lemma recognizing_during_playback:
  "isAISpeaking (run [Initialize Granted, Start, RecognitionError ''no-speech'', Elapse 100,
                      TimerFires 2 0 0] (initial 0))
   \<and> recognizing (run [Initialize Granted, Start, RecognitionError ''no-speech'', Elapse 100,
                       TimerFires 2 0 0] (initial 0))"
  by code_simp

subsection \<open>Errors of the recogniser\<close>

text \<open>
  C3, as stated, fails: each handler restarts on some errors only. In an active
  conversation, the first class does nothing on the error "network" and the second does
  nothing on "no-speech".
\<close>

theorem error_without_restart_counterexample:
  "conversationActive (run [Initialize Granted, Start] (initial 0))
   \<and> isInitialized (run [Initialize Granted, Start] (initial 0))
   \<and> step (RecognitionError ''network'') (run [Initialize Granted, Start] (initial 0))
       = run [Initialize Granted, Start] (initial 0)
   \<and> conversationActive (n_run [NInitialize Granted, NStart] (n_initial 0))
   \<and> n_step (NRecognitionError ''no-speech'') (n_run [NInitialize Granted, NStart] (n_initial 0))
       = n_run [NInitialize Granted, NStart] (n_initial 0)"
proof -
  have a: "conversationActive (run [Initialize Granted, Start] (initial 0))"
    "isInitialized (run [Initialize Granted, Start] (initial 0))"
    "conversationActive (n_run [NInitialize Granted, NStart] (n_initial 0))"
    by code_simp+
  have b: "step (RecognitionError ''network'') s = s" for s
    by (simp add: step_def recognition_onerror_def)
  have c: "n_step (NRecognitionError ''no-speech'') s = s" for s
    by (simp add: n_step_def n_recognition_onerror_def)
  from a b c show ?thesis by simp
qed

text \<open>
  C3, amended: on an error event the first class schedules a restart of the recogniser
  100 ms later exactly when the error is "no-speech" or "audio-capture", the second class
  exactly when it is neither "no-speech" nor "aborted"; the handler changes nothing else;
  and when the delay is over the recogniser is started if the conversation is active
  (in the second class: active and the AI not speaking).
\<close>

theorem recognition_error_restart:
  "timers (recognition_onerror err s)
     = (if err \<in> {''no-speech'', ''audio-capture''}
        then timers s @ [(nextTimerId s, dateNow s + 100, ErrorRestart)] else timers s)
   \<and> recognition_onerror err s
       = s\<lparr>timers := timers (recognition_onerror err s),
            nextTimerId := nextTimerId (recognition_onerror err s)\<rparr>
   \<and> recognizing (runTask ErrorRestart level rnd s) = (conversationActive s \<or> recognizing s)
   \<and> timers (n_recognition_onerror err n)
       = (if err \<in> {''no-speech'', ''aborted''}
          then timers n else timers n @ [(nextTimerId n, dateNow n + 100, ErrorRestart)])
   \<and> n_recognition_onerror err n
       = n\<lparr>timers := timers (n_recognition_onerror err n),
            nextTimerId := nextTimerId (n_recognition_onerror err n)\<rparr>
   \<and> recognizing (n_runTask ErrorRestart level n)
       = (conversationActive n \<and> \<not> isAISpeaking n \<or> recognizing n)"
  by (auto simp: recognition_onerror_def n_recognition_onerror_def setTimeout_def runTask_def
      n_runTask_def)

theorem recognition_error_restart_witness:
  "timers (recognition_onerror ''no-speech'' (initial 0)) = [(1, 100, ErrorRestart)]
   \<and> timers (recognition_onerror ''network'' (initial 0)) = []
   \<and> timers (n_recognition_onerror ''network'' (n_initial 0)) = [(1, 100, ErrorRestart)]
   \<and> timers (n_recognition_onerror ''no-speech'' (n_initial 0)) = []
   \<and> recognizing (runTask ErrorRestart 0 0 ((initial 0)\<lparr>conversationActive := True\<rparr>))"
proof -
  note T = recognition_error_restart
  have c1: "timers (recognition_onerror ''no-speech'' (initial 0)) = [(1, 100, ErrorRestart)]"
    using T [of "''no-speech''" "initial 0"] by (simp add: initial_def)
  have c2: "timers (recognition_onerror ''network'' (initial 0)) = []"
    using T [of "''network''" "initial 0"] by (simp add: initial_def)
  have c3: "timers (n_recognition_onerror ''network'' (n_initial 0)) = [(1, 100, ErrorRestart)]"
    using T [where err = "''network''" and n = "n_initial 0"] by (simp add: n_initial_def)
  have c4: "timers (n_recognition_onerror ''no-speech'' (n_initial 0)) = []"
    using T [where err = "''no-speech''" and n = "n_initial 0"] by (simp add: n_initial_def)
  have c5: "recognizing (runTask ErrorRestart 0 0 ((initial 0)\<lparr>conversationActive := True\<rparr>))"
    using T [where s = "(initial 0)\<lparr>conversationActive := True\<rparr>" and level = 0 and rnd = 0]
    by simp
  from c1 c2 c3 c4 c5 show ?thesis by blast
qed

subsection \<open>No question twice\<close>

lemma pool_length: "length questionPool = 20"
  by (simp add: questionPool_def)

lemma closing_ends_conversation:
  "\<not> conversationActive (synthesis_onend (speakText closing AfterClosing s))
   \<and> \<not> conversationActive (synthesis_onerror (speakText closing AfterClosing s))"
  by (simp add: synthesis_onend_def synthesis_onerror_def speakText_def resolve_def
      setTimeout_def notify_def Let_def)

text \<open>
  C10: \<open>selectNextQuestion\<close> returns only questions of the pool whose id is not in
  \<open>askedQuestions\<close>; \<open>askNextQuestion\<close> adds the id of the question it asks and
  then speaks it; the pool has 20 questions; once the id of every question of the pool is
  in \<open>askedQuestions\<close>, \<open>askNextQuestion\<close> asks nothing, speaks the closing message
  and the conversation is no longer active when that utterance is over; and in every run
  from the initial state the questions handed to \<open>onQuestionAsked\<close> have pairwise
  different ids.
\<close>

theorem no_question_twice:
  "(selectNextQuestion rnd s = Some q \<longrightarrow>
       q \<in> set questionPool \<and> iq_id q \<notin> askedQuestions s
       \<and> askedQuestions (askNextQuestion rnd s) = insert (iq_id q) (askedQuestions s)
       \<and> askedLog (askNextQuestion rnd s) = askedLog s @ [q]
       \<and> utterances (askNextQuestion rnd s) = utterances s @ [iq_text q])
   \<and> length questionPool = 20
   \<and> ((\<forall>p\<in>set questionPool. iq_id p \<in> askedQuestions s) \<longrightarrow>
        selectNextQuestion rnd s = None
        \<and> askedLog (askNextQuestion rnd s) = askedLog s
        \<and> utterances (askNextQuestion rnd s) = utterances s @ [closing]
        \<and> \<not> conversationActive (synthesis_onend (askNextQuestion rnd s))
        \<and> \<not> conversationActive (synthesis_onerror (askNextQuestion rnd s)))
   \<and> distinct (map iq_id (askedLog (run es (initial t0))))"
proof (intro conjI impI)
  assume a: "selectNextQuestion rnd s = Some q"
  from selectNextQuestion_Some [OF a]
  show "q \<in> set questionPool" "iq_id q \<notin> askedQuestions s" by simp_all
  from askNextQuestion_Some [OF a]
  show "askedQuestions (askNextQuestion rnd s) = insert (iq_id q) (askedQuestions s)"
    "askedLog (askNextQuestion rnd s) = askedLog s @ [q]"
    "utterances (askNextQuestion rnd s) = utterances s @ [iq_text q]"
    by simp_all
next
  show "length questionPool = 20" by (rule pool_length)
next
  assume a: "\<forall>p\<in>set questionPool. iq_id p \<in> askedQuestions s"
  from selectNextQuestion_None [OF a] show n: "selectNextQuestion rnd s = None" .
  note e = askNextQuestion_None [OF n]
  from same_log_speakText [of closing AfterClosing s]
  show "askedLog (askNextQuestion rnd s) = askedLog s" by (simp add: e same_log_def)
  show "utterances (askNextQuestion rnd s) = utterances s @ [closing]"
    by (simp add: e speakText_def Let_def notify_def)
  from closing_ends_conversation [of s]
  show "\<not> conversationActive (synthesis_onend (askNextQuestion rnd s))"
    "\<not> conversationActive (synthesis_onerror (askNextQuestion rnd s))"
    by (simp_all add: e)
next
  from asked_inv_run [of es] show "distinct (map iq_id (askedLog (run es (initial t0))))"
    by (simp add: asked_inv_def)
qed

theorem no_question_twice_witness:
  "selectNextQuestion 0 (initial 0) = Some (hd questionPool)
   \<and> askedQuestions (askNextQuestion 0 (initial 0)) = {''q1''}
   \<and> selectNextQuestion 0 all_asked = None
   \<and> utterances (askNextQuestion 0 all_asked) = [closing]
   \<and> \<not> conversationActive (synthesis_onend (askNextQuestion 0 all_asked))"
proof -
  note T = no_question_twice
  have s1: "selectNextQuestion 0 (initial 0) = Some (hd questionPool)"
    by code_simp
  have i1: "iq_id (hd questionPool) = ''q1''" "askedQuestions (initial 0) = {}"
    by (simp_all add: questionPool_def initial_def)
  have c2: "askedQuestions (askNextQuestion 0 (initial 0)) = {''q1''}"
    using T [where rnd = 0 and s = "initial 0" and q = "hd questionPool"] s1 i1 by simp
  have a: "\<forall>p\<in>set questionPool. iq_id p \<in> askedQuestions all_asked"
    by (simp add: all_asked_def)
  have u: "utterances all_asked = []" by (simp add: all_asked_def initial_def)
  from T [where rnd = 0 and s = all_asked] a u
  have c3: "selectNextQuestion 0 all_asked = None"
    and c4: "utterances (askNextQuestion 0 all_asked) = [closing]"
    and c5: "\<not> conversationActive (synthesis_onend (askNextQuestion 0 all_asked))"
    by simp_all
  from s1 c2 c3 c4 c5 show ?thesis by blast
qed

end
